theory Spec2Isabelle
  imports Main "HOL-Library.Word"
begin

section \<open>JavaScript strings\<close>

text \<open>
  Strings are lists of characters. \<open>toLowerCase\<close> maps the letters A to Z to a to z and
  leaves every other character alone; the extensions the program looks for
  (\<open>.dwg\<close>, \<open>.dxf\<close>, \<open>.py\<close>) consist of such characters only.
\<close>

definition lower_char :: "char \<Rightarrow> char" where
  "lower_char c =
     (case map_of (zip ''ABCDEFGHIJKLMNOPQRSTUVWXYZ'' ''abcdefghijklmnopqrstuvwxyz'') c of
        None \<Rightarrow> c
      | Some l \<Rightarrow> l)"

definition toLowerCase :: "string \<Rightarrow> string" where
  "toLowerCase s = map lower_char s"

definition endsWith :: "string \<Rightarrow> string \<Rightarrow> bool" where
  "endsWith s suf = (length suf \<le> length s \<and> drop (length s - length suf) s = suf)"

definition startsWith :: "string \<Rightarrow> string \<Rightarrow> bool" where
  "startsWith s p = (take (length p) s = p)"

text \<open>\<open>s.split(sep)\<close> for a one-character separator: never the empty array.\<close>

fun split_on :: "char \<Rightarrow> string \<Rightarrow> string list" where
  "split_on sep [] = [[]]"
| "split_on sep (c # cs) =
     (if c = sep then [] # split_on sep cs
      else (case split_on sep cs of
              [] \<Rightarrow> [[c]]
            | w # ws \<Rightarrow> (c # w) # ws))"

text \<open>\<open>a.pop()\<close> read for its value: the last element, \<open>undefined\<close> on the empty array.\<close>

definition pop :: "'a list \<Rightarrow> 'a option" where
  "pop xs = (if xs = [] then None else Some (last xs))"

text \<open>\<open>a[i]\<close>: \<open>undefined\<close> out of range.\<close>

fun at_index :: "'a list \<Rightarrow> nat \<Rightarrow> 'a option" where
  "at_index [] i = None"
| "at_index (x # xs) 0 = Some x"
| "at_index (x # xs) (Suc i) = at_index xs i"

text \<open>\<open>a.join(sep)\<close>.\<close>

fun join :: "string \<Rightarrow> string list \<Rightarrow> string" where
  "join sep [] = []"
| "join sep [x] = x"
| "join sep (x # y # ys) = x @ sep @ join sep (y # ys)"

text \<open>\<open>String(n)\<close> for a non-negative integer, and \<open>s.padStart(n, c)\<close>.\<close>

definition digit_char :: "nat \<Rightarrow> char" where
  "digit_char d = ''0123456789'' ! d"

fun show_nat :: "nat \<Rightarrow> string" where
  "show_nat n = (if n < 10 then [digit_char n] else show_nat (n div 10) @ [digit_char (n mod 10)])"

declare show_nat.simps [simp del]

definition padStart :: "nat \<Rightarrow> char \<Rightarrow> string \<Rightarrow> string" where
  "padStart n c s = replicate (n - length s) c @ s"

text \<open>A string of decimal digits.\<close>

definition decimal :: "string \<Rightarrow> bool" where
  "decimal s = list_all (\<lambda>c. c \<in> set ''0123456789'') s"

section \<open>JavaScript values\<close>

text \<open>
  Content blocks are plain objects that the program inspects field by field, so they are
  kept as such: an object is the list of its properties in the order of the literal that
  built it. Reading a property that is absent gives \<open>undefined\<close>.
\<close>

datatype jsval =
    JUndefined
  | JNull
  | JNumber int
  | JString string
  | JObject "(string \<times> jsval) list"

fun js_get :: "jsval \<Rightarrow> string \<Rightarrow> jsval" where
  "js_get (JObject kvs) k = (case map_of kvs k of None \<Rightarrow> JUndefined | Some v \<Rightarrow> v)"
| "js_get v k = JUndefined"

text \<open>\<open>k in v\<close>, read only where \<open>v\<close> is already known to be a non-null object.\<close>

fun js_in :: "string \<Rightarrow> jsval \<Rightarrow> bool" where
  "js_in k (JObject kvs) = (k \<in> set (map fst kvs))"
| "js_in k v = False"

text \<open>\<open>typeof v === "object"\<close> holds of objects and of \<open>null\<close>.\<close>

fun typeof_object :: "jsval \<Rightarrow> bool" where
  "typeof_object (JObject kvs) = True"
| "typeof_object JNull = True"
| "typeof_object v = False"

fun typeof_string :: "jsval \<Rightarrow> bool" where
  "typeof_string (JString s) = True"
| "typeof_string v = False"

text \<open>\<open>v.startsWith(p)\<close> on a value already known to be a string.\<close>

fun js_startsWith :: "jsval \<Rightarrow> string \<Rightarrow> bool" where
  "js_startsWith (JString s) p = startsWith s p"
| "js_startsWith v p = False"

text \<open>\<open>b.metadata?.k\<close>\<close>

definition metadata_get :: "jsval \<Rightarrow> string \<Rightarrow> jsval" where
  "metadata_get b k =
     (case js_get b ''metadata'' of
        JUndefined \<Rightarrow> JUndefined
      | JNull \<Rightarrow> JUndefined
      | m \<Rightarrow> js_get m k)"

section \<open>Files and the platform's reader\<close>

type_synonym byte = "8 word"

record File =
  fname :: string
  ftype :: string
  fbytes :: "byte list"

definition fsize :: "File \<Rightarrow> int" where
  "fsize f = int (length (fbytes f))"

text \<open>
  The browser's \<open>FileReader\<close> is not part of the repository. \<open>readAsDataURL\<close> is taken to
  yield \<open>data:\<close>, the file's media type (\<open>application/octet-stream\<close> when the file
  declares none), \<open>;base64,\<close> and the base64 text of the bytes (RFC 4648, padded).
\<close>

definition alphabet :: string where
  "alphabet = ''ABCDEFGHIJKLMNOPQRSTUVWXYZabcdefghijklmnopqrstuvwxyz0123456789+/''"

definition sextet_char :: "nat \<Rightarrow> char" where
  "sextet_char i = alphabet ! i"

fun base64 :: "byte list \<Rightarrow> string" where
  "base64 [] = []"
| "base64 [a] =
     [sextet_char (unat a div 4), sextet_char (unat a mod 4 * 16), CHR ''='', CHR ''='']"
| "base64 [a, b] =
     [sextet_char (unat a div 4), sextet_char (unat a mod 4 * 16 + unat b div 16),
      sextet_char (unat b mod 16 * 4), CHR ''='']"
| "base64 (a # b # c # rest) =
     [sextet_char (unat a div 4), sextet_char (unat a mod 4 * 16 + unat b div 16),
      sextet_char (unat b mod 16 * 4 + unat c div 64), sextet_char (unat c mod 64)]
     @ base64 rest"

definition readAsDataURL :: "File \<Rightarrow> string" where
  "readAsDataURL f =
     ''data:'' @ (if ftype f = [] then ''application/octet-stream'' else ftype f)
       @ '';base64,'' @ base64 (fbytes f)"

text \<open>The decoder a consumer of inline data applies: four characters to three bytes.\<close>

fun index_of :: "'a \<Rightarrow> 'a list \<Rightarrow> nat" where
  "index_of c [] = 0"
| "index_of c (x # xs) = (if x = c then 0 else Suc (index_of c xs))"

definition char_sextet :: "char \<Rightarrow> nat" where
  "char_sextet c = index_of c alphabet"

fun base64_decode :: "string \<Rightarrow> byte list" where
  "base64_decode (c1 # c2 # c3 # c4 # rest) =
     (if c3 = CHR ''='' then [of_nat (char_sextet c1 * 4 + char_sextet c2 div 16)]
      else if c4 = CHR ''='' then
        [of_nat (char_sextet c1 * 4 + char_sextet c2 div 16),
         of_nat (char_sextet c2 mod 16 * 16 + char_sextet c3 div 4)]
      else
        of_nat (char_sextet c1 * 4 + char_sextet c2 div 16)
        # of_nat (char_sextet c2 mod 16 * 16 + char_sextet c3 div 4)
        # of_nat (char_sextet c3 mod 4 * 64 + char_sextet c4)
        # base64_decode rest)"
| "base64_decode cs = []"

section \<open>Failures, notices and the environment\<close>

text \<open>
  What a promise rejects with or a \<open>catch\<close> receives: an \<open>Error\<close> with its message, the
  event a failed \<open>FileReader\<close> passes to \<open>onerror\<close>, or some other value.
\<close>

datatype thrown = ErrorObj string | ReaderEvent | NonError

text \<open>\<open>error instanceof Error ? error.message : alt\<close>\<close>

fun message_or :: "thrown \<Rightarrow> string \<Rightarrow> string" where
  "message_or (ErrorObj m) alt = m"
| "message_or t alt = alt"

datatype toast = ToastError string | ToastInfo string | ToastSuccess string

fun is_error_toast :: "toast \<Rightarrow> bool" where
  "is_error_toast (ToastError m) = True"
| "is_error_toast t = False"

text \<open>The server's configuration: \<open>process.env.X || default\<close>.\<close>

record process_env =
  APP_AWS_REGION :: "string option"
  BUCKET_NAME_var :: "string option"

definition env_or :: "string option \<Rightarrow> string \<Rightarrow> string" where
  "env_or v d = (case v of None \<Rightarrow> d | Some s \<Rightarrow> if s = [] then d else s)"

definition BUCKET_NAME :: "process_env \<Rightarrow> string" where
  "BUCKET_NAME pe = env_or (BUCKET_NAME_var pe) ''keystone-user-content-files''"

definition region_of :: "process_env \<Rightarrow> string" where
  "region_of pe = env_or (APP_AWS_REGION pe) ''eu-north-1''"

text \<open>
  What one call of the endpoint draws from outside: the identifier \<open>uuidv4()\<close> returns,
  the clock (\<open>getFullYear()\<close>, \<open>getMonth()\<close>, which counts from 0, and the
  \<open>toISOString()\<close> reading put into the result), and whether the write to the store
  throws. The object written is not kept: of the store, only the outcome of the write
  matters below.
\<close>

record call_env =
  uuidv4 :: string
  fullYear :: nat
  monthIndex :: nat
  isoReturned :: string
  sendThrows :: "thrown option"

text \<open>
  The world a user action runs in: which files the reader fails on, for which files the
  request does not reach the endpoint, the server's configuration, and what the n-th
  request served sees.
\<close>

record world =
  readFails :: "File \<Rightarrow> bool"
  fetchThrows :: "File \<Rightarrow> thrown option"
  penv :: process_env
  calls :: "nat \<Rightarrow> call_env"

text \<open>
  The state of the page: the attachment collection, the notices shown so far and the
  number of upload requests made so far.
\<close>

record ui =
  contentBlocks :: "jsval list"
  toasts :: "toast list"
  served :: nat

definition notify :: "toast \<Rightarrow> ui \<Rightarrow> ui" where
  "notify t s = s\<lparr>toasts := toasts s @ [t]\<rparr>"

section \<open>The encoder\<close>

text \<open>
  \<open>fileToBase64\<close> resolves with \<open>result.split(",")[1]\<close> and rejects with the reader's
  event when the read fails.
\<close>

definition fileToBase64 :: "world \<Rightarrow> File \<Rightarrow> thrown + jsval" where
  "fileToBase64 w f =
     (if readFails w f then Inl ReaderEvent
      else Inr (case at_index (split_on CHR '','' (readAsDataURL f)) 1 of
                  None \<Rightarrow> JUndefined
                | Some d \<Rightarrow> JString d))"

section \<open>The upload endpoint\<close>

text \<open>
  A request carries its multipart form, or the failure \<open>request.formData()\<close> throws when
  the body cannot be read as one. A part is a file or a text field.
\<close>

datatype form_entry = FormFile File | FormText string

record request =
  formData :: "thrown + (string \<times> form_entry) list"

record response =
  status :: nat
  statusText :: string
  body :: jsval

text \<open>\<open>NextResponse.json(v, { status })\<close>; the status is 200 when none is given.\<close>

definition json_response :: "jsval \<Rightarrow> nat \<Rightarrow> response" where
  "json_response v st = \<lparr>status = st, statusText = [], body = v\<rparr>"

definition json_error :: "string \<Rightarrow> nat \<Rightarrow> response" where
  "json_error msg st = json_response (JObject [(''error'', JString msg)]) st"

text \<open>The \<open>catch\<close> block of \<open>POST\<close>.\<close>

definition upload_failed :: "thrown \<Rightarrow> response" where
  "upload_failed t = json_error (''Upload failed: '' @ message_or t ''Unknown error'') 500"

text \<open>
  Reading \<open>file.name.toLowerCase()\<close> when the part named \<open>file\<close> is a non-empty text
  field throws a \<open>TypeError\<close>, whose message is the engine's.
\<close>

definition no_name_TypeError :: thrown where
  "no_name_TypeError =
     ErrorObj ''Cannot read properties of undefined (reading 'toLowerCase')''"

definition s3Key_of :: "call_env \<Rightarrow> string \<Rightarrow> string" where
  "s3Key_of ce fileExtension =
     ''user-uploads/drawings/'' @ show_nat (fullYear ce) @ ''/''
       @ padStart 2 CHR ''0'' (show_nat (monthIndex ce + 1)) @ ''/''
       @ uuidv4 ce @ ''.'' @ fileExtension"

text \<open>\<open>file.name.split('.').pop()?.toLowerCase() || ''\<close>\<close>

definition fileExtension_of :: "File \<Rightarrow> string" where
  "fileExtension_of f =
     (case pop (split_on CHR ''.'' (fname f)) of None \<Rightarrow> [] | Some e \<Rightarrow> toLowerCase e)"

text \<open>The structured result of a stored upload.\<close>

definition upload_result :: "process_env \<Rightarrow> call_env \<Rightarrow> File \<Rightarrow> jsval" where
  "upload_result pe ce f =
     (let fileExtension = fileExtension_of f;
          uniqueId = uuidv4 ce;
          s3Key = s3Key_of ce fileExtension
      in JObject
           [(''s3_key'', JString s3Key),
            (''s3_bucket'', JString (BUCKET_NAME pe)),
            (''s3_region'', JString (region_of pe)),
            (''metadata'', JObject
              [(''filename'', JString (uniqueId @ ''.'' @ fileExtension)),
               (''original_name'', JString (fname f)),
               (''size'', JNumber (fsize f)),
               (''mime_type'', JString
                  (if ftype f = [] then ''application/octet-stream'' else ftype f)),
               (''uploaded_at'', JString (isoReturned ce))])])"

definition POST :: "process_env \<Rightarrow> call_env \<Rightarrow> request \<Rightarrow> response" where
  "POST pe ce req =
     (case formData req of
        Inl t \<Rightarrow> upload_failed t
      | Inr entries \<Rightarrow>
          (case map_of entries ''file'' of
             None \<Rightarrow> json_error ''No file provided'' 400
           | Some (FormText s) \<Rightarrow>
               if s = [] then json_error ''No file provided'' 400
               else upload_failed no_name_TypeError
           | Some (FormFile f) \<Rightarrow>
               (let fileName = toLowerCase (fname f) in
                if \<not> endsWith fileName ''.dwg'' \<and> \<not> endsWith fileName ''.dxf'' then
                  json_error ''Only .dwg and .dxf files are supported'' 400
                else
                  (case sendThrows ce of
                     Some t \<Rightarrow> upload_failed t
                   | None \<Rightarrow> json_response (upload_result pe ce f) 200))))"

definition GET :: response where
  "GET = json_error ''Method not allowed'' 405"

text \<open>The handlers the route module exports, by method.\<close>

datatype http_method = MGet | MHead | MPost | MPut | MDelete | MPatch | MOptions

definition exported :: "http_method \<Rightarrow> (process_env \<Rightarrow> call_env \<Rightarrow> request \<Rightarrow> response) option" where
  "exported m =
     (case m of
        MPost \<Rightarrow> Some POST
      | MGet \<Rightarrow> Some (\<lambda>pe ce req. GET)
      | _ \<Rightarrow> None)"

section \<open>The uploader\<close>

definition response_ok :: "response \<Rightarrow> bool" where
  "response_ok r = (200 \<le> status r \<and> status r \<le> 299)"

text \<open>
  \<open>errorData.error || `HTTP ${status}: ${statusText}`\<close>; the endpoint's error field is a
  string whenever it is present.
\<close>

definition error_text :: "response \<Rightarrow> string" where
  "error_text r =
     (case js_get (body r) ''error'' of
        JString s \<Rightarrow>
          if s \<noteq> [] then s
          else ''HTTP '' @ show_nat (status r) @ '': '' @ statusText r
      | _ \<Rightarrow> ''HTTP '' @ show_nat (status r) @ '': '' @ statusText r)"

text \<open>
  The form the uploader sends: the file as the part named \<open>file\<close>. The endpoint is taken
  to receive the file as it was sent; the multipart encoding escapes double quotes and line
  breaks in a file's name, and names with such characters are not followed further.
\<close>

definition form_of :: "File \<Rightarrow> request" where
  "form_of f = \<lparr>formData = Inr [(''file'', FormFile f)]\<rparr>"

text \<open>
  \<open>uploadFileToS3\<close> posts that form to the endpoint; \<open>n\<close> says which request of the
  world this one is.
\<close>

definition uploadFileToS3 :: "world \<Rightarrow> nat \<Rightarrow> File \<Rightarrow> thrown + jsval" where
  "uploadFileToS3 w n f =
     (case (case fetchThrows w f of
              Some t \<Rightarrow> Inl t
            | None \<Rightarrow>
                (let response = POST (penv w) (calls w n) (form_of f)
                 in if \<not> response_ok response then Inl (ErrorObj (error_text response))
                    else Inr (body response))) of
        Inl error \<Rightarrow>
          Inl (ErrorObj (''Failed to upload file to S3: '' @ message_or error ''Unknown error''))
      | Inr result \<Rightarrow> Inr result)"

definition shouldUploadToS3 :: "File \<Rightarrow> bool" where
  "shouldUploadToS3 f =
     (endsWith (toLowerCase (fname f)) ''.dwg'' \<or> endsWith (toLowerCase (fname f)) ''.dxf'')"

section \<open>The content-block builder\<close>

definition supportedImageTypes :: "string list" where
  "supportedImageTypes = [''image/jpeg'', ''image/png'', ''image/gif'', ''image/webp'']"

definition supportedCADTypes :: "string list" where
  "supportedCADTypes =
     [''application/acad'', ''image/vnd.dwg'', ''application/dwg'', ''image/x-dwg'',
      ''application/dxf'', ''image/vnd.dxf'', ''application/octet-stream'',
      ''application/x-dwg'', ''image/x-autocad'']"

definition supportedPythonTypes :: "string list" where
  "supportedPythonTypes = [''text/x-python'', ''application/x-python-code'']"

definition isCADFile :: "File \<Rightarrow> bool" where
  "isCADFile f =
     (let fileName = toLowerCase (fname f)
      in endsWith fileName ''.dwg'' \<or> endsWith fileName ''.dxf'')"

definition isPythonFile :: "File \<Rightarrow> bool" where
  "isPythonFile f = endsWith (toLowerCase (fname f)) ''.py''"

definition image_block :: "File \<Rightarrow> jsval \<Rightarrow> jsval" where
  "image_block f d =
     JObject [(''type'', JString ''image''), (''source_type'', JString ''base64''),
              (''mime_type'', JString (ftype f)), (''data'', d),
              (''metadata'', JObject [(''name'', JString (fname f))])]"

definition inline_file_block :: "string \<Rightarrow> File \<Rightarrow> jsval \<Rightarrow> jsval" where
  "inline_file_block mimeType f d =
     JObject [(''type'', JString ''file''), (''source_type'', JString ''base64''),
              (''mime_type'', JString mimeType), (''data'', d),
              (''metadata'', JObject [(''filename'', JString (fname f))])]"

definition s3_block :: "jsval \<Rightarrow> jsval" where
  "s3_block s3Result =
     JObject [(''type'', JString ''file''), (''source_type'', JString ''s3''),
              (''s3_key'', js_get s3Result ''s3_key''),
              (''s3_bucket'', js_get s3Result ''s3_bucket''),
              (''s3_region'', js_get s3Result ''s3_region''),
              (''metadata'', js_get s3Result ''metadata'')]"

subsection \<open>The variant that keeps every file inline\<close>

definition supportedFileTypes_inline :: "string list" where
  "supportedFileTypes_inline =
     supportedImageTypes @ [''application/pdf''] @ supportedCADTypes @ [''text/plain'']"

text \<open>The media type of an inline CAD block: the declared one, else by extension.\<close>

definition cad_mimeType :: "File \<Rightarrow> string" where
  "cad_mimeType f =
     (if ftype f = [] \<or> ftype f = ''text/plain'' then
        (let fileName = toLowerCase (fname f)
         in if endsWith fileName ''.dwg'' then ''application/acad''
            else if endsWith fileName ''.dxf'' then ''application/dxf''
            else ftype f)
      else ftype f)"

definition fileToContentBlock_inline :: "world \<Rightarrow> File \<Rightarrow> ui \<Rightarrow> (thrown + jsval) \<times> ui" where
  "fileToContentBlock_inline w f s =
     (if \<not> (ftype f \<in> set supportedFileTypes_inline \<or> isCADFile f) then
        (Inl (ErrorObj (''Unsupported file type: '' @ ftype f)),
         notify (ToastError (''Unsupported file type: '' @ ftype f
           @ ''. Supported types are: images (JPEG, PNG, GIF, WEBP), PDF, DWG, and DXF files.'')) s)
      else
        (case fileToBase64 w f of
           Inl t \<Rightarrow> (Inl t, s)
         | Inr d \<Rightarrow>
             if ftype f \<in> set supportedImageTypes then (Inr (image_block f d), s)
             else if ftype f = ''application/pdf'' then
               (Inr (inline_file_block ''application/pdf'' f d), s)
             else if ftype f \<in> set supportedCADTypes \<or> isCADFile f then
               (Inr (inline_file_block (cad_mimeType f) f d), s)
             else
               (Inl (ErrorObj (''Unexpected file type: '' @ ftype f)),
                notify (ToastError (''Unexpected file type: '' @ ftype f)) s)))"

subsection \<open>The variant that uploads CAD and Python files\<close>

definition supportedFileTypes :: "string list" where
  "supportedFileTypes =
     supportedImageTypes @ [''application/pdf''] @ supportedCADTypes @ supportedPythonTypes
       @ [''text/plain'']"

text \<open>The \<open>try\<close>/\<open>catch\<close> around the upload, with its three notices.\<close>

definition upload_branch :: "world \<Rightarrow> File \<Rightarrow> ui \<Rightarrow> (thrown + jsval) \<times> ui" where
  "upload_branch w f s =
     (let s1 = notify (ToastInfo (''Uploading '' @ fname f @ '' to cloud storage...'')) s
      in case uploadFileToS3 w (served s1) f of
           Inr s3Result \<Rightarrow>
             (Inr (s3_block s3Result),
              (notify (ToastSuccess (fname f @ '' uploaded successfully!'')) s1)
                \<lparr>served := Suc (served s1)\<rparr>)
         | Inl error \<Rightarrow>
             (Inl error,
              (notify (ToastError (''Failed to upload '' @ fname f @ ''. Please try again.'')) s1)
                \<lparr>served := Suc (served s1)\<rparr>))"

definition fileToContentBlock :: "world \<Rightarrow> File \<Rightarrow> ui \<Rightarrow> (thrown + jsval) \<times> ui" where
  "fileToContentBlock w f s =
     (if \<not> (ftype f \<in> set supportedFileTypes \<or> isCADFile f \<or> isPythonFile f) then
        (Inl (ErrorObj (''Unsupported file type: '' @ ftype f)),
         notify (ToastError (''Unsupported file type: '' @ ftype f
           @ ''. Supported types are: images (JPEG, PNG, GIF, WEBP), PDF, DWG, DXF, and Python files.'')) s)
      else
        (case fileToBase64 w f of
           Inl t \<Rightarrow> (Inl t, s)
         | Inr d \<Rightarrow>
             if ftype f \<in> set supportedImageTypes then (Inr (image_block f d), s)
             else if ftype f = ''application/pdf'' then
               (Inr (inline_file_block ''application/pdf'' f d), s)
             else if ftype f \<in> set supportedCADTypes \<or> isCADFile f
                     \<or> ftype f \<in> set supportedPythonTypes \<or> isPythonFile f then
               upload_branch w f s
             else
               (Inl (ErrorObj (''Unexpected file type: '' @ ftype f)),
                notify (ToastError (''Unexpected file type: '' @ ftype f)) s)))"

section \<open>The runtime type guards\<close>

definition inline_guard_mimes :: "string list" where
  "inline_guard_mimes =
     [''application/pdf'', ''application/acad'', ''application/dwg'', ''application/dxf'',
      ''image/vnd.dwg'', ''image/vnd.dxf'', ''image/x-dwg'', ''text/x-python'',
      ''application/x-python-code'']"

definition isContentBlock :: "jsval \<Rightarrow> bool" where
  "isContentBlock block =
     (if \<not> typeof_object block \<or> block = JNull \<or> \<not> js_in ''type'' block then False
      else if js_get block ''type'' = JString ''file'' \<and> js_in ''source_type'' block
              \<and> js_get block ''source_type'' = JString ''s3'' \<and> js_in ''s3_key'' block
              \<and> js_in ''s3_bucket'' block \<and> js_in ''s3_region'' block then True
      else if js_get block ''type'' = JString ''file'' \<and> js_in ''source_type'' block
              \<and> js_get block ''source_type'' = JString ''base64'' \<and> js_in ''mime_type'' block
              \<and> typeof_string (js_get block ''mime_type'') then
        (js_startsWith (js_get block ''mime_type'') ''image/''
         \<or> js_get block ''mime_type'' \<in> set (map JString inline_guard_mimes))
      else if js_get block ''type'' = JString ''image'' \<and> js_in ''source_type'' block
              \<and> js_get block ''source_type'' = JString ''base64'' \<and> js_in ''mime_type'' block
              \<and> typeof_string (js_get block ''mime_type'')
              \<and> js_startsWith (js_get block ''mime_type'') ''image/'' then True
      else False)"

definition isBase64ContentBlock :: "jsval \<Rightarrow> bool" where
  "isBase64ContentBlock block =
     (isContentBlock block \<and> js_get block ''source_type'' = JString ''base64'')"

section \<open>The attachment collection: validation and duplicates\<close>

definition SUPPORTED_FILE_TYPES :: "string list" where
  "SUPPORTED_FILE_TYPES =
     [''image/jpeg'', ''image/png'', ''image/gif'', ''image/webp'', ''application/pdf'',
      ''application/acad'', ''image/vnd.dwg'', ''application/dwg'', ''image/x-dwg'',
      ''application/x-dwg'', ''image/x-autocad'', ''application/octet-stream'',
      ''application/dxf'', ''image/vnd.dxf'', ''text/plain'']"

text \<open>The hook's own extension test: the text after the last dot of the lowercased name.\<close>

definition isCADFile_hook :: "File \<Rightarrow> bool" where
  "isCADFile_hook f =
     (let fileName = toLowerCase (fname f);
          extension = pop (split_on CHR ''.'' fileName)
      in extension = Some ''dwg'' \<or> extension = Some ''dxf'')"

definition isValidFile :: "File \<Rightarrow> bool" where
  "isValidFile f =
     (if isCADFile_hook f then True
      else if ftype f \<in> set SUPPORTED_FILE_TYPES then True
      else if ftype f = ''application/octet-stream''
              \<and> (let extension = map_option toLowerCase (pop (split_on CHR ''.'' (fname f)))
                  in extension = Some ''dwg'' \<or> extension = Some ''dxf'') then True
      else False)"

definition isDuplicate :: "File \<Rightarrow> jsval list \<Rightarrow> bool" where
  "isDuplicate f blocks =
     (if ftype f = ''application/pdf'' then
        list_ex (\<lambda>b. js_get b ''type'' = JString ''file''
                     \<and> js_get b ''mime_type'' = JString ''application/pdf''
                     \<and> metadata_get b ''filename'' = JString (fname f)) blocks
      else if isCADFile_hook f then
        list_ex (\<lambda>b. js_get b ''type'' = JString ''file''
                     \<and> metadata_get b ''filename'' = JString (fname f)) blocks
      else if isValidFile f then
        list_ex (\<lambda>b. (js_get b ''type'' = JString ''image''
                        \<and> metadata_get b ''name'' = JString (fname f))
                     \<or> (js_get b ''type'' = JString ''file''
                        \<and> metadata_get b ''filename'' = JString (fname f))) blocks
      else False)"

text \<open>The duplicate test \<open>handlePaste\<close> declares for itself.\<close>

definition isDuplicatePaste :: "File \<Rightarrow> jsval list \<Rightarrow> bool" where
  "isDuplicatePaste f blocks =
     (if ftype f = ''application/pdf'' then
        list_ex (\<lambda>b. js_get b ''type'' = JString ''file''
                     \<and> js_get b ''mime_type'' = JString ''application/pdf''
                     \<and> metadata_get b ''filename'' = JString (fname f)) blocks
      else if isValidFile f then
        list_ex (\<lambda>b. (js_get b ''type'' = JString ''image''
                        \<and> metadata_get b ''name'' = JString (fname f))
                     \<or> (js_get b ''type'' = JString ''file''
                        \<and> metadata_get b ''filename'' = JString (fname f))) blocks
      else False)"

section \<open>The attachment collection: adding a batch\<close>

text \<open>
  The hook is linked to one of the two builders. \<open>Promise.all\<close> over the builds starts
  every build; each one runs to its end and shows its own notices, and the joined promise
  rejects as soon as one of them does. The builds are run here in the order of the list,
  and the rejection kept is that of the first failing file in that order. In the program
  the builds overlap, so the notices of different builds may interleave and the handler's
  notice may come before the notices of builds still running; which notices are shown, and
  how many, does not depend on that.
\<close>

type_synonym builder = "File \<Rightarrow> ui \<Rightarrow> (thrown + jsval) \<times> ui"

fun run_builds :: "builder \<Rightarrow> File list \<Rightarrow> ui \<Rightarrow> (thrown + jsval) list \<times> ui" where
  "run_builds build [] s = ([], s)"
| "run_builds build (f # fs) s =
     (case build f s of
        (r, s1) \<Rightarrow> (case run_builds build fs s1 of (rs, s2) \<Rightarrow> (r # rs, s2)))"

fun joined :: "(thrown + jsval) list \<Rightarrow> thrown + jsval list" where
  "joined [] = Inr []"
| "joined (Inl e # rs) = Inl e"
| "joined (Inr v # rs) = (case joined rs of Inl e \<Rightarrow> Inl e | Inr vs \<Rightarrow> Inr (v # vs))"

definition Promise_all :: "builder \<Rightarrow> File list \<Rightarrow> ui \<Rightarrow> (thrown + jsval list) \<times> ui" where
  "Promise_all build fs s = (case run_builds build fs s of (rs, s1) \<Rightarrow> (joined rs, s1))"

text \<open>
  The three handlers share their body up to the texts of the notices and the duplicate
  test: the files are split into invalid, duplicate and unique ones against the
  collection as it is when the action starts, the first two groups are reported, and the
  unique files are built and appended together. The drag counter, the highlight of the
  drop zone and the reset of the input's value touch neither the collection nor the
  notices and are left out.
\<close>

definition invalid_notice :: "string \<Rightarrow> string \<Rightarrow> File list \<Rightarrow> toast" where
  "invalid_notice head tail invalidFiles =
     ToastError (head @ join '', '' (map fname invalidFiles) @ tail)"

definition duplicate_notice :: "File list \<Rightarrow> toast" where
  "duplicate_notice duplicateFiles =
     ToastError (''Duplicate file(s) detected: '' @ join '', '' (map fname duplicateFiles)
       @ ''. Each file can only be uploaded once per message.'')"

definition report_rejected ::
    "(File \<Rightarrow> jsval list \<Rightarrow> bool) \<Rightarrow> string \<Rightarrow> string \<Rightarrow> File list \<Rightarrow> ui \<Rightarrow> ui" where
  "report_rejected dup head tail files s =
     (let validFiles = filter isValidFile files;
          invalidFiles = filter (\<lambda>f. \<not> isValidFile f) files;
          duplicateFiles = filter (\<lambda>f. dup f (contentBlocks s)) validFiles;
          s1 = (if length invalidFiles > 0 then notify (invalid_notice head tail invalidFiles) s
                else s)
      in if length duplicateFiles > 0 then notify (duplicate_notice duplicateFiles) s1 else s1)"

definition uniqueFiles_of :: "(File \<Rightarrow> jsval list \<Rightarrow> bool) \<Rightarrow> File list \<Rightarrow> ui \<Rightarrow> File list" where
  "uniqueFiles_of dup files s =
     filter (\<lambda>f. \<not> dup f (contentBlocks s)) (filter isValidFile files)"

definition add_batch ::
    "(File \<Rightarrow> jsval list \<Rightarrow> bool) \<Rightarrow> string \<Rightarrow> string \<Rightarrow> string \<Rightarrow> builder \<Rightarrow> File list \<Rightarrow> ui \<Rightarrow> ui" where
  "add_batch dup head tail failure build files s =
     (let uniqueFiles = uniqueFiles_of dup files s;
          s2 = report_rejected dup head tail files s
      in if length uniqueFiles > 0 then
           (case Promise_all build uniqueFiles s2 of
              (Inr newBlocks, s3) \<Rightarrow> s3\<lparr>contentBlocks := contentBlocks s3 @ newBlocks\<rparr>
            | (Inl error, s3) \<Rightarrow> notify (ToastError failure) s3)
         else s2)"

text \<open>Selecting files in the input; \<open>None\<close> is \<open>e.target.files\<close> being null.\<close>

definition handleFileUpload :: "builder \<Rightarrow> File list option \<Rightarrow> ui \<Rightarrow> ui" where
  "handleFileUpload build files s =
     (case files of
        None \<Rightarrow> s
      | Some fileArray \<Rightarrow>
          add_batch isDuplicate ''Invalid file type(s): ''
            ''. Please upload JPEG, PNG, GIF, WEBP images, PDF, DWG or DXF files.''
            ''Error processing files. Please try again.'' build fileArray s)"

text \<open>Dropping files on the window; \<open>None\<close> is \<open>e.dataTransfer\<close> being null.\<close>

definition handleWindowDrop :: "builder \<Rightarrow> File list option \<Rightarrow> ui \<Rightarrow> ui" where
  "handleWindowDrop build dataTransfer s =
     (case dataTransfer of
        None \<Rightarrow> s
      | Some files \<Rightarrow>
          add_batch isDuplicate ''Invalid file type(s): ''
            ''. Please upload JPEG, PNG, GIF, WEBP images, PDF, DWG or DXF files.''
            ''Error processing dropped files. Please try again.'' build files s)"

text \<open>Pasting: the clipboard items of kind \<open>file\<close> that yield a file.\<close>

record clipboard_item =
  kind :: string
  getAsFile :: "File option"

fun pasted_files :: "clipboard_item list \<Rightarrow> File list" where
  "pasted_files [] = []"
| "pasted_files (item # items) =
     (if kind item = ''file'' then
        (case getAsFile item of
           Some f \<Rightarrow> f # pasted_files items
         | None \<Rightarrow> pasted_files items)
      else pasted_files items)"

definition handlePaste :: "builder \<Rightarrow> clipboard_item list option \<Rightarrow> ui \<Rightarrow> ui" where
  "handlePaste build items s =
     (case items of
        None \<Rightarrow> s
      | Some its \<Rightarrow>
          (let files = pasted_files its
           in if length files = 0 then s
              else add_batch isDuplicatePaste ''Invalid pasted file type(s): ''
                     ''. Please paste JPEG, PNG, GIF, WEBP images, PDF, DWG or DXF files.''
                     ''Error processing pasted files. Please try again.'' build files s))"

section \<open>The attachment collection: removal\<close>

text \<open>
  \<open>removeBlock\<close> is \<open>prev.filter((_, i) => i !== idx)\<close>. The index is a JavaScript
  number; it is an integer here, and an index outside the collection removes nothing.
\<close>

definition removeBlock :: "int \<Rightarrow> 'a list \<Rightarrow> 'a list" where
  "removeBlock idx prev = map snd (filter (\<lambda>p. int (fst p) \<noteq> idx) (enumerate 0 prev))"

definition resetBlocks :: "'a list \<Rightarrow> 'a list" where
  "resetBlocks prev = []"

section \<open>User actions\<close>

text \<open>
  One user action brings one batch of files: a selection in the file input, a drop on the
  window, or a paste. The functions below name, for an action, the handler that runs, the
  files it brings, the duplicate test and the notice texts that handler uses, and the
  builds it starts.
\<close>

datatype user_action =
    Select "File list option"
  | Drop "File list option"
  | Paste "clipboard_item list option"

fun perform :: "builder \<Rightarrow> user_action \<Rightarrow> ui \<Rightarrow> ui" where
  "perform build (Select files) s = handleFileUpload build files s"
| "perform build (Drop dataTransfer) s = handleWindowDrop build dataTransfer s"
| "perform build (Paste items) s = handlePaste build items s"

fun batch_of :: "user_action \<Rightarrow> File list" where
  "batch_of (Select files) = (case files of None \<Rightarrow> [] | Some fs \<Rightarrow> fs)"
| "batch_of (Drop dataTransfer) = (case dataTransfer of None \<Rightarrow> [] | Some fs \<Rightarrow> fs)"
| "batch_of (Paste items) = (case items of None \<Rightarrow> [] | Some its \<Rightarrow> pasted_files its)"

fun dup_of :: "user_action \<Rightarrow> File \<Rightarrow> jsval list \<Rightarrow> bool" where
  "dup_of (Select files) = isDuplicate"
| "dup_of (Drop dataTransfer) = isDuplicate"
| "dup_of (Paste items) = isDuplicatePaste"

fun invalid_head_of :: "user_action \<Rightarrow> string" where
  "invalid_head_of (Select files) = ''Invalid file type(s): ''"
| "invalid_head_of (Drop dataTransfer) = ''Invalid file type(s): ''"
| "invalid_head_of (Paste items) = ''Invalid pasted file type(s): ''"

fun invalid_tail_of :: "user_action \<Rightarrow> string" where
  "invalid_tail_of (Select files) =
     ''. Please upload JPEG, PNG, GIF, WEBP images, PDF, DWG or DXF files.''"
| "invalid_tail_of (Drop dataTransfer) =
     ''. Please upload JPEG, PNG, GIF, WEBP images, PDF, DWG or DXF files.''"
| "invalid_tail_of (Paste items) =
     ''. Please paste JPEG, PNG, GIF, WEBP images, PDF, DWG or DXF files.''"

fun failure_of :: "user_action \<Rightarrow> string" where
  "failure_of (Select files) = ''Error processing files. Please try again.''"
| "failure_of (Drop dataTransfer) = ''Error processing dropped files. Please try again.''"
| "failure_of (Paste items) = ''Error processing pasted files. Please try again.''"

text \<open>
  The state in which the builds of an action start, and the builds themselves: their
  results, in the order of the unique files, and the state they leave.
\<close>

definition rejected_reported :: "user_action \<Rightarrow> ui \<Rightarrow> ui" where
  "rejected_reported a s =
     report_rejected (dup_of a) (invalid_head_of a) (invalid_tail_of a) (batch_of a) s"

definition builds_of :: "builder \<Rightarrow> user_action \<Rightarrow> ui \<Rightarrow> (thrown + jsval) list \<times> ui" where
  "builds_of build a s =
     run_builds build (uniqueFiles_of (dup_of a) (batch_of a) s) (rejected_reported a s)"

text \<open>A build that rejected with an \<open>Error\<close>, as opposed to the reader's event.\<close>

fun build_error :: "thrown + jsval \<Rightarrow> bool" where
  "build_error (Inl (ErrorObj m)) = True"
| "build_error r = False"

text \<open>The notices an action added.\<close>

definition notices_added :: "ui \<Rightarrow> ui \<Rightarrow> toast list" where
  "notices_added s s' = drop (length (toasts s)) (toasts s')"

text \<open>
  What one build may do to the page: it leaves the collection alone and adds notices, among
  them one error notice if it rejected with an \<open>Error\<close> and none otherwise, and never a
  notice that a batch failed.
\<close>

definition build_effect :: "ui \<Rightarrow> (thrown + jsval) \<times> ui \<Rightarrow> bool" where
  "build_effect s p =
     (contentBlocks (snd p) = contentBlocks s \<and>
      (\<exists>ts. toasts (snd p) = toasts s @ ts \<and>
            length (filter is_error_toast ts) = (if build_error (fst p) then 1 else 0) \<and>
            (\<forall>x. ToastError (''Error processing '' @ x) \<notin> set ts)))"

text \<open>The number a string of decimal digits denotes.\<close>

definition decimal_value :: "string \<Rightarrow> nat" where
  "decimal_value s = foldl (\<lambda>a c. 10 * a + index_of c ''0123456789'') 0 s"

section \<open>Sample worlds\<close>

text \<open>
  A world in which nothing fails, with two identifiers for the first two requests; one in
  which every write to the store throws; one in which one file cannot be read; and the
  files the examples use.
\<close>

definition sample_call :: "nat \<Rightarrow> call_env" where
  "sample_call n =
     \<lparr>uuidv4 = (if n = 0 then ''3f2b8c1e-5d4a-4e6f-9a7b-0c1d2e3f4a5b''
                else ''9e8d7c6b-5a49-4382-b716-05f4e3d2c1b0''),
      fullYear = 2025, monthIndex = 2,
      isoReturned = ''2025-03-01T10:00:00.001Z'',
      sendThrows = None\<rparr>"

definition quiet_world :: world where
  "quiet_world =
     \<lparr>readFails = (\<lambda>f. False), fetchThrows = (\<lambda>f. None),
      penv = \<lparr>APP_AWS_REGION = None, BUCKET_NAME_var = None\<rparr>,
      calls = sample_call\<rparr>"

definition store_down_world :: world where
  "store_down_world =
     \<lparr>readFails = (\<lambda>f. False), fetchThrows = (\<lambda>f. None),
      penv = \<lparr>APP_AWS_REGION = None, BUCKET_NAME_var = None\<rparr>,
      calls = (\<lambda>n. (sample_call n)\<lparr>sendThrows := Some (ErrorObj ''connect ETIMEDOUT'')\<rparr>)\<rparr>"

definition empty_ui :: ui where
  "empty_ui = \<lparr>contentBlocks = [], toasts = [], served = 0\<rparr>"

definition png_named_dwg :: File where
  "png_named_dwg = \<lparr>fname = ''plan.dwg'', ftype = ''image/png'', fbytes = [120]\<rparr>"

definition untyped_dxf :: File where
  "untyped_dxf = \<lparr>fname = ''PLAN.DXF'', ftype = [], fbytes = [120]\<rparr>"

definition plain_dxf :: File where
  "plain_dxf = \<lparr>fname = ''site.dxf'', ftype = ''text/plain'', fbytes = [120]\<rparr>"

definition untyped_dwg :: File where
  "untyped_dwg = \<lparr>fname = ''Plan.DWG'', ftype = [], fbytes = [120]\<rparr>"

definition notes_txt :: File where
  "notes_txt = \<lparr>fname = ''notes.txt'', ftype = ''text/plain'', fbytes = [104, 105]\<rparr>"

definition sample_penv :: process_env where
  "sample_penv = \<lparr>APP_AWS_REGION = None, BUCKET_NAME_var = None\<rparr>"

definition comma_typed :: File where
  "comma_typed = \<lparr>fname = ''plan.dwg'', ftype = ''a,b'', fbytes = [120]\<rparr>"

definition street_png :: File where
  "street_png = \<lparr>fname = ''street.png'', ftype = ''image/png'', fbytes = [1, 2, 3]\<rparr>"

definition site_dwg :: File where
  "site_dwg = \<lparr>fname = ''site.dwg'', ftype = ''application/acad'', fbytes = [65, 67]\<rparr>"

definition roof_png :: File where
  "roof_png = \<lparr>fname = ''roof.png'', ftype = ''image/png'', fbytes = [4]\<rparr>"

definition unreadable_roof_world :: world where
  "unreadable_roof_world = quiet_world\<lparr>readFails := (\<lambda>f. fname f = ''roof.png'')\<rparr>"

text \<open>A request whose body is not a form: \<open>request.formData()\<close> throws.\<close>

definition unreadable_body :: request where
  "unreadable_body =
     \<lparr>formData = Inl (ErrorObj ''Content-Type was not one of multipart/form-data or application/x-www-form-urlencoded.'')\<rparr>"

text \<open>A call of the endpoint far in the future.\<close>

definition far_future_call :: call_env where
  "far_future_call = (sample_call 0)\<lparr>fullYear := 12025\<rparr>"

definition script_py :: File where
  "script_py = \<lparr>fname = ''script.py'', ftype = ''text/x-python'', fbytes = [112]\<rparr>"

section \<open>Removal keeps the rest in order\<close>

lemma filter_enumerate_skip:
  "k < length xs \<Longrightarrow>
   map snd (filter (\<lambda>p. fst p \<noteq> n + k) (enumerate n xs)) = take k xs @ drop (Suc k) xs"
proof (induction xs arbitrary: n k)
  case Nil
  then show ?case by simp
next
  case (Cons x xs)
  show ?case
  proof (cases k)
    case 0
    have "filter (\<lambda>p. fst p \<noteq> n) (enumerate (Suc n) xs) = enumerate (Suc n) xs"
      by (rule filter_True) (auto simp: in_set_enumerate_eq)
    with 0 show ?thesis by simp
  next
    case (Suc j)
    with Cons.prems have "j < length xs" by simp
    from Cons.IH [OF this, of "Suc n"] Suc show ?thesis by simp
  qed
qed

text \<open>
  C9. Removing at an index inside a collection of size N leaves N - 1 blocks: the blocks
  before the index followed by the blocks after it, in their order.
\<close>

theorem removeBlock_in_range:
  "0 \<le> idx \<Longrightarrow> idx < int (length prev) \<Longrightarrow>
   removeBlock idx prev = take (nat idx) prev @ drop (Suc (nat idx)) prev \<and>
   length (removeBlock idx prev) = length prev - 1"
proof -
  assume lo: "0 \<le> idx" and hi: "idx < int (length prev)"
  then have k: "nat idx < length prev" by simp
  have "(\<lambda>p::nat \<times> 'a. int (fst p) \<noteq> idx) = (\<lambda>p. fst p \<noteq> 0 + nat idx)"
    using lo by (auto simp: fun_eq_iff)
  then have eq: "removeBlock idx prev = take (nat idx) prev @ drop (Suc (nat idx)) prev"
    unfolding removeBlock_def using filter_enumerate_skip [OF k, of 0] by simp
  have "length (take (nat idx) prev @ drop (Suc (nat idx)) prev) = length prev - 1"
    using k by simp
  with eq show ?thesis by simp
qed

theorem removeBlock_in_range_witness:
  "removeBlock 1 [''a'', ''b'', ''c''] = [''a'', ''c''] \<and>
   length (removeBlock 1 [''a'', ''b'', ''c'']) = 2"
  using removeBlock_in_range [of 1 "[''a'', ''b'', ''c'']"] by simp

section \<open>Which branch a CAD-named file takes\<close>

text \<open>
  C3. A file whose lowercased name ends in \<open>.dwg\<close> or \<open>.dxf\<close> is always supported, and
  once its bytes are read both builders send it down the CAD branch for every declared
  media type, the empty one included, except the four image types and
  \<open>application/pdf\<close>: those are tested before the extension and win.
\<close>

theorem cad_extension_branch:
  "isCADFile f \<Longrightarrow>
   fileToContentBlock w f s =
     (case fileToBase64 w f of
        Inl t \<Rightarrow> (Inl t, s)
      | Inr d \<Rightarrow>
          if ftype f \<in> set supportedImageTypes then (Inr (image_block f d), s)
          else if ftype f = ''application/pdf'' then
            (Inr (inline_file_block ''application/pdf'' f d), s)
          else upload_branch w f s) \<and>
   fileToContentBlock_inline w f s =
     (case fileToBase64 w f of
        Inl t \<Rightarrow> (Inl t, s)
      | Inr d \<Rightarrow>
          if ftype f \<in> set supportedImageTypes then (Inr (image_block f d), s)
          else if ftype f = ''application/pdf'' then
            (Inr (inline_file_block ''application/pdf'' f d), s)
          else (Inr (inline_file_block (cad_mimeType f) f d), s))"
  by (simp add: fileToContentBlock_def fileToContentBlock_inline_def split: sum.splits)

theorem cad_extension_branch_witness:
  "fileToContentBlock quiet_world untyped_dxf empty_ui
     = upload_branch quiet_world untyped_dxf empty_ui \<and>
   fileToContentBlock_inline quiet_world untyped_dxf empty_ui
     = (Inr (inline_file_block ''application/dxf'' untyped_dxf (JString ''eA=='')), empty_ui)"
  using cad_extension_branch [of untyped_dxf quiet_world empty_ui]
  by (simp add: untyped_dxf_def isCADFile_def toLowerCase_def lower_char_def endsWith_def
      supportedImageTypes_def fileToBase64_def quiet_world_def cad_mimeType_def
      readAsDataURL_def sextet_char_def alphabet_def)

text \<open>
  A drawing that declares \<open>image/png\<close> becomes an image block; no upload is made.
\<close>

theorem cad_extension_counterexample:
  "isCADFile png_named_dwg \<and>
   fileToContentBlock quiet_world png_named_dwg empty_ui =
     (Inr (image_block png_named_dwg (JString ''eA=='')), empty_ui) \<and>
   fileToContentBlock quiet_world png_named_dwg empty_ui
     \<noteq> upload_branch quiet_world png_named_dwg empty_ui"
  by (simp add: png_named_dwg_def isCADFile_def toLowerCase_def lower_char_def endsWith_def
      fileToContentBlock_def supportedFileTypes_def supportedImageTypes_def fileToBase64_def
      quiet_world_def readAsDataURL_def sextet_char_def alphabet_def upload_branch_def
      empty_ui_def notify_def Let_def split: sum.splits)

section \<open>Evaluating the model\<close>

text \<open>The defining equations a concrete run unfolds.\<close>

lemmas run_defs =
  isCADFile_def isPythonFile_def toLowerCase_def lower_char_def endsWith_def startsWith_def
  fileToContentBlock_def fileToContentBlock_inline_def upload_branch_def uploadFileToS3_def
  form_of_def POST_def upload_result_def fileExtension_of_def s3Key_of_def padStart_def pop_def
  show_nat.simps digit_char_def json_response_def json_error_def upload_failed_def
  response_ok_def error_text_def BUCKET_NAME_def region_of_def env_or_def fsize_def
  supportedFileTypes_def supportedFileTypes_inline_def supportedImageTypes_def
  supportedCADTypes_def supportedPythonTypes_def cad_mimeType_def
  fileToBase64_def readAsDataURL_def sextet_char_def alphabet_def
  image_block_def inline_file_block_def s3_block_def metadata_get_def
  quiet_world_def store_down_world_def sample_call_def empty_ui_def notify_def Let_def

section \<open>What an upload returns\<close>

lemma uploadFileToS3_Inr:
  "uploadFileToS3 w n f = Inr r \<Longrightarrow> isCADFile f \<and> r = upload_result (penv w) (calls w n) f"
  by (auto simp: uploadFileToS3_def form_of_def POST_def isCADFile_def Let_def response_ok_def
      json_response_def json_error_def upload_failed_def
      split: option.splits sum.splits if_splits)

lemma upload_branch_Inr:
  "fst (upload_branch w f s) = Inr b \<Longrightarrow>
   isCADFile f \<and> b = s3_block (upload_result (penv w) (calls w (served s)) f)"
  by (auto simp: upload_branch_def Let_def notify_def dest: uploadFileToS3_Inr split: sum.splits)

section \<open>The media type of a CAD block\<close>

text \<open>
  C4. For a file with a CAD extension that declares no media type or \<open>text/plain\<close>, and
  whose bytes are read: the builder that keeps files inline gives the block the media type
  \<open>application/acad\<close> for \<open>.dwg\<close> and \<open>application/dxf\<close> for \<open>.dxf\<close>; the builder
  that uploads gives the block no \<open>mime_type\<close> property of its own, and the block's
  metadata carry the endpoint's: \<open>application/octet-stream\<close> for no declared type, and \<open>text/plain\<close> as
  declared.
\<close>

theorem cad_media_type:
  assumes "isCADFile f" and "ftype f = [] \<or> ftype f = ''text/plain''" and "\<not> readFails w f"
  shows "(\<exists>b. fst (fileToContentBlock_inline w f s) = Inr b \<and>
              js_get b ''mime_type'' =
                JString (if endsWith (toLowerCase (fname f)) ''.dwg'' then ''application/acad''
                         else ''application/dxf'')) \<and>
         (\<forall>b. fst (fileToContentBlock w f s) = Inr b \<longrightarrow>
              \<not> js_in ''mime_type'' b \<and> js_get b ''mime_type'' = JUndefined \<and>
              metadata_get b ''mime_type'' =
                JString (if ftype f = [] then ''application/octet-stream'' else ''text/plain''))"
proof
  from assms(2) have notimg: "ftype f \<notin> set supportedImageTypes" and notpdf: "ftype f \<noteq> ''application/pdf''"
    by (auto simp: supportedImageTypes_def)
  from assms(3) obtain d where d: "fileToBase64 w f = Inr d"
    by (simp add: fileToBase64_def)
  have "fileToContentBlock_inline w f s = (Inr (inline_file_block (cad_mimeType f) f d), s)"
    using assms(1) notimg notpdf d by (simp add: fileToContentBlock_inline_def)
  moreover have "cad_mimeType f =
      (if endsWith (toLowerCase (fname f)) ''.dwg'' then ''application/acad'' else ''application/dxf'')"
    using assms(1,2) by (auto simp: cad_mimeType_def isCADFile_def Let_def)
  ultimately show "\<exists>b. fst (fileToContentBlock_inline w f s) = Inr b \<and>
              js_get b ''mime_type'' =
                JString (if endsWith (toLowerCase (fname f)) ''.dwg'' then ''application/acad''
                         else ''application/dxf'')"
    by (simp add: inline_file_block_def)
  have s3: "fileToContentBlock w f s = upload_branch w f s"
    using assms(1) notimg notpdf d by (simp add: fileToContentBlock_def)
  show "\<forall>b. fst (fileToContentBlock w f s) = Inr b \<longrightarrow>
              \<not> js_in ''mime_type'' b \<and> js_get b ''mime_type'' = JUndefined \<and>
              metadata_get b ''mime_type'' =
                JString (if ftype f = [] then ''application/octet-stream'' else ''text/plain'')"
  proof (intro allI impI)
    fix b assume "fst (fileToContentBlock w f s) = Inr b"
    with s3 have b: "b = s3_block (upload_result (penv w) (calls w (served s)) f)"
      using upload_branch_Inr by simp
    have "js_get b ''metadata'' = js_get (upload_result (penv w) (calls w (served s)) f) ''metadata''"
      by (simp add: b s3_block_def)
    then have "metadata_get b ''mime_type'' =
                JString (if ftype f = [] then ''application/octet-stream'' else ''text/plain'')"
      using assms(2) by (auto simp: metadata_get_def upload_result_def Let_def)
    moreover have "\<not> js_in ''mime_type'' b \<and> js_get b ''mime_type'' = JUndefined"
      by (simp add: b s3_block_def)
    ultimately show "\<not> js_in ''mime_type'' b \<and> js_get b ''mime_type'' = JUndefined \<and>
              metadata_get b ''mime_type'' =
                JString (if ftype f = [] then ''application/octet-stream'' else ''text/plain'')"
      by simp
  qed
qed

text \<open>
  An uploaded \<open>.dxf\<close> that declares \<open>text/plain\<close> keeps that type in its metadata.
\<close>

theorem cad_media_type_counterexample:
  "isCADFile plain_dxf \<and>
   (\<exists>b. fst (fileToContentBlock quiet_world plain_dxf empty_ui) = Inr b \<and>
        metadata_get b ''mime_type'' = JString ''text/plain'' \<and>
        js_get b ''mime_type'' = JUndefined)"
  by (simp add: plain_dxf_def run_defs)

theorem cad_media_type_witness:
  "(\<exists>b. fst (fileToContentBlock_inline quiet_world untyped_dwg empty_ui) = Inr b \<and>
        js_get b ''mime_type'' = JString ''application/acad'') \<and>
   (\<exists>b. fst (fileToContentBlock quiet_world untyped_dwg empty_ui) = Inr b \<and>
        \<not> js_in ''mime_type'' b \<and> js_get b ''mime_type'' = JUndefined \<and>
        metadata_get b ''mime_type'' = JString ''application/octet-stream'')"
proof -
  have 1: "isCADFile untyped_dwg" by (simp add: untyped_dwg_def run_defs)
  have 2: "ftype untyped_dwg = [] \<or> ftype untyped_dwg = ''text/plain''" by (simp add: untyped_dwg_def)
  have 3: "\<not> readFails quiet_world untyped_dwg" by (simp add: quiet_world_def)
  have 4: "endsWith (toLowerCase (fname untyped_dwg)) ''.dwg''" by (simp add: untyped_dwg_def run_defs)
  have 5: "\<exists>b. fst (fileToContentBlock quiet_world untyped_dwg empty_ui) = Inr b"
    by (simp add: untyped_dwg_def run_defs)
  from cad_media_type [OF 1 2 3, of empty_ui] 4 5 2 show ?thesis
    by (auto simp: untyped_dwg_def)
qed


section \<open>Built blocks and the type guards\<close>

lemma s3_block_guard: "isContentBlock (s3_block r)"
  by (simp add: isContentBlock_def s3_block_def)

lemma image_block_guard:
  "ftype f \<in> set supportedImageTypes \<Longrightarrow> isContentBlock (image_block f d)"
  by (auto simp: isContentBlock_def image_block_def supportedImageTypes_def startsWith_def)

lemma pdf_block_guard: "isContentBlock (inline_file_block ''application/pdf'' f d)"
  by (simp add: isContentBlock_def inline_file_block_def inline_guard_mimes_def startsWith_def)

lemma fileToContentBlock_cases:
  "fst (fileToContentBlock w f s) = Inr b \<Longrightarrow>
   (\<exists>d. ftype f \<in> set supportedImageTypes \<and> b = image_block f d) \<or>
   (\<exists>d. b = inline_file_block ''application/pdf'' f d) \<or>
   (\<exists>r. b = s3_block r)"
  by (auto simp: fileToContentBlock_def upload_branch_def Let_def split: if_splits sum.splits)

text \<open>
  C10. Every block the uploading builder returns, image, inline PDF or store reference,
  passes \<open>isContentBlock\<close>, and passes \<open>isBase64ContentBlock\<close> exactly when its
  \<open>source_type\<close> is \<open>base64\<close>.
\<close>

theorem built_blocks_pass_guard:
  "fst (fileToContentBlock w f s) = Inr b \<Longrightarrow>
   isContentBlock b \<and>
   (isBase64ContentBlock b \<longleftrightarrow> js_get b ''source_type'' = JString ''base64'')"
proof -
  assume "fst (fileToContentBlock w f s) = Inr b"
  from fileToContentBlock_cases [OF this] have "isContentBlock b"
    using s3_block_guard image_block_guard pdf_block_guard by blast
  then show ?thesis by (simp add: isBase64ContentBlock_def)
qed

theorem built_blocks_pass_guard_witness:
  "(\<exists>b. fst (fileToContentBlock quiet_world untyped_dwg empty_ui) = Inr b \<and>
        isContentBlock b \<and> \<not> isBase64ContentBlock b) \<and>
   (\<exists>b. fst (fileToContentBlock quiet_world png_named_dwg empty_ui) = Inr b \<and>
        isContentBlock b \<and> isBase64ContentBlock b)"
proof -
  obtain b1 where b1: "fst (fileToContentBlock quiet_world untyped_dwg empty_ui) = Inr b1"
    and s1: "js_get b1 ''source_type'' = JString ''s3''"
    by (simp add: untyped_dwg_def run_defs)
  obtain b2 where b2: "fst (fileToContentBlock quiet_world png_named_dwg empty_ui) = Inr b2"
    and s2: "js_get b2 ''source_type'' = JString ''base64''"
    by (simp add: png_named_dwg_def run_defs)
  from built_blocks_pass_guard [OF b1] built_blocks_pass_guard [OF b2] b1 b2 s1 s2
  show ?thesis by auto
qed

section \<open>The endpoint's responses\<close>

text \<open>
  C8. What the endpoint answers, case by case. POST answers 500 with the message
  \<open>Upload failed: ...\<close> when the body cannot be read as a form, when the part named
  \<open>file\<close> is a non-empty text field, and when the write to the store throws; 400 with an
  error body when the form has no part named \<open>file\<close> (or an empty text field of that
  name) and when the file's lowercased name ends in neither \<open>.dwg\<close> nor \<open>.dxf\<close>; and
  200 with the structured result otherwise. Every answer of POST other than 200 is 400 or
  500 and its body is the error object alone, with a non-empty message. GET answers 405.
  The module exports handlers for POST and GET and for no other method.
\<close>

theorem endpoint_error_contract:
  "POST pe ce req =
     (case formData req of
        Inl t \<Rightarrow> json_error (''Upload failed: '' @ message_or t ''Unknown error'') 500
      | Inr entries \<Rightarrow>
          (case map_of entries ''file'' of
             None \<Rightarrow> json_error ''No file provided'' 400
           | Some (FormText x) \<Rightarrow>
               if x = [] then json_error ''No file provided'' 400
               else json_error (''Upload failed: '' @ message_or no_name_TypeError ''Unknown error'') 500
           | Some (FormFile f) \<Rightarrow>
               if \<not> isCADFile f then json_error ''Only .dwg and .dxf files are supported'' 400
               else (case sendThrows ce of
                       Some t \<Rightarrow> json_error (''Upload failed: '' @ message_or t ''Unknown error'') 500
                     | None \<Rightarrow> json_response (upload_result pe ce f) 200))) \<and>
   (status (POST pe ce req) = 200 \<or>
    (status (POST pe ce req) = 400 \<or> status (POST pe ce req) = 500) \<and>
    (\<exists>msg. msg \<noteq> [] \<and> body (POST pe ce req) = JObject [(''error'', JString msg)])) \<and>
   GET = json_error ''Method not allowed'' 405 \<and>
   exported MPost = Some POST \<and>
   (\<exists>h. exported MGet = Some h \<and> h pe ce req = GET) \<and>
   (exported m = None \<longleftrightarrow> m \<noteq> MPost \<and> m \<noteq> MGet)"
proof (intro conjI)
  show p: "POST pe ce req =
     (case formData req of
        Inl t \<Rightarrow> json_error (''Upload failed: '' @ message_or t ''Unknown error'') 500
      | Inr entries \<Rightarrow>
          (case map_of entries ''file'' of
             None \<Rightarrow> json_error ''No file provided'' 400
           | Some (FormText x) \<Rightarrow>
               if x = [] then json_error ''No file provided'' 400
               else json_error (''Upload failed: '' @ message_or no_name_TypeError ''Unknown error'') 500
           | Some (FormFile f) \<Rightarrow>
               if \<not> isCADFile f then json_error ''Only .dwg and .dxf files are supported'' 400
               else (case sendThrows ce of
                       Some t \<Rightarrow> json_error (''Upload failed: '' @ message_or t ''Unknown error'') 500
                     | None \<Rightarrow> json_response (upload_result pe ce f) 200)))"
    by (simp add: POST_def upload_failed_def isCADFile_def Let_def
        split: sum.splits option.splits form_entry.splits)
  show "status (POST pe ce req) = 200 \<or>
    (status (POST pe ce req) = 400 \<or> status (POST pe ce req) = 500) \<and>
    (\<exists>msg. msg \<noteq> [] \<and> body (POST pe ce req) = JObject [(''error'', JString msg)])"
    unfolding p
    by (simp add: json_error_def json_response_def
        split: sum.splits option.splits form_entry.splits)
  show "GET = json_error ''Method not allowed'' 405" by (simp add: GET_def)
  show "exported MPost = Some POST" by (simp add: exported_def)
  show "\<exists>h. exported MGet = Some h \<and> h pe ce req = GET" by (simp add: exported_def)
  show "exported m = None \<longleftrightarrow> m \<noteq> MPost \<and> m \<noteq> MGet"
    by (cases m) (simp_all add: exported_def)
qed

theorem endpoint_error_contract_witness:
  "POST sample_penv (sample_call 0) \<lparr>formData = Inr []\<rparr> = json_error ''No file provided'' 400 \<and>
   POST sample_penv (sample_call 0) (form_of notes_txt)
     = json_error ''Only .dwg and .dxf files are supported'' 400 \<and>
   POST sample_penv ((sample_call 0)\<lparr>sendThrows := Some (ErrorObj ''connect ETIMEDOUT'')\<rparr>)
       (form_of untyped_dwg)
     = json_error ''Upload failed: connect ETIMEDOUT'' 500 \<and>
   status (POST sample_penv (sample_call 0) (form_of untyped_dwg)) = 200 \<and>
   status GET = 405 \<and>
   body (POST sample_penv (sample_call 0) (form_of notes_txt))
     = JObject [(''error'', JString ''Only .dwg and .dxf files are supported'')]"
proof -
  note c1 = endpoint_error_contract [where req = "\<lparr>formData = Inr []\<rparr>"
      and pe = sample_penv and ce = "sample_call 0" and m = MGet, THEN conjunct1]
  note c2 = endpoint_error_contract [where req = "form_of notes_txt"
      and pe = sample_penv and ce = "sample_call 0" and m = MGet, THEN conjunct1]
  note c3 = endpoint_error_contract [where req = "form_of untyped_dwg"
      and pe = sample_penv
      and ce = "(sample_call 0)\<lparr>sendThrows := Some (ErrorObj ''connect ETIMEDOUT'')\<rparr>"
      and m = MGet, THEN conjunct1]
  note c4 = endpoint_error_contract [where req = "form_of untyped_dwg"
      and pe = sample_penv and ce = "sample_call 0" and m = MGet, THEN conjunct1]
  have n: "\<not> isCADFile notes_txt" "isCADFile untyped_dwg"
    by (simp_all add: notes_txt_def untyped_dwg_def isCADFile_def toLowerCase_def
        lower_char_def endsWith_def)
  have s: "sendThrows (sample_call 0) = None" by (simp add: sample_call_def)
  show ?thesis
    unfolding c1 c2 c3 c4 using n s
    by (simp add: form_of_def json_error_def json_response_def GET_def)
qed

text \<open>
  A request whose body is not a form has no part named \<open>file\<close> and is answered 500, not
  400; so is one whose part named \<open>file\<close> is a text field. For PUT, DELETE, PATCH, HEAD
  and OPTIONS the module has no handler that could answer 405.
\<close>

theorem endpoint_error_contract_counterexample:
  "POST sample_penv (sample_call 0) unreadable_body
     = json_error (''Upload failed: Content-Type was not one of multipart/form-data or application/x-www-form-urlencoded.'') 500 \<and>
   status (POST sample_penv (sample_call 0) unreadable_body) = 500 \<and>
   POST sample_penv (sample_call 0) \<lparr>formData = Inr [(''file'', FormText ''plan.dwg'')]\<rparr>
     = json_error (''Upload failed: Cannot read properties of undefined (reading 'toLowerCase')'') 500 \<and>
   exported MPut = None \<and> exported MDelete = None \<and> exported MPatch = None \<and>
   exported MHead = None \<and> exported MOptions = None"
  by (simp add: unreadable_body_def POST_def upload_failed_def exported_def no_name_TypeError_def
      json_error_def json_response_def)

section \<open>Splitting, suffixes and decimal numerals\<close>

lemma split_on_not_Nil: "split_on sep s \<noteq> []"
  by (induction s) (auto split: list.splits)

lemma split_on_no_sep: "sep \<notin> set s \<Longrightarrow> split_on sep s = [s]"
  by (induction s) auto

lemma split_on_append:
  "split_on sep (p @ sep # q) = split_on sep p @ split_on sep q"
proof (induction p)
  case Nil
  then show ?case by simp
next
  case (Cons c p)
  obtain w ws where "split_on sep p = w # ws"
    using split_on_not_Nil [of sep p] by (cases "split_on sep p") auto
  with Cons show ?case by simp
qed

lemma pop_split_on:
  "sep \<notin> set e \<Longrightarrow> pop (split_on sep (p @ sep # e)) = Some e"
  by (simp add: pop_def split_on_append split_on_no_sep split_on_not_Nil)

lemma endsWith_iff: "endsWith s suf \<longleftrightarrow> (\<exists>p. s = p @ suf)"
proof
  assume "endsWith s suf"
  then have "s = take (length s - length suf) s @ suf"
    unfolding endsWith_def by (metis append_take_drop_id)
  then show "\<exists>p. s = p @ suf" ..
next
  assume "\<exists>p. s = p @ suf"
  then show "endsWith s suf" by (auto simp: endsWith_def)
qed

lemma lower_char_dot: "lower_char c = CHR ''.'' \<longleftrightarrow> c = CHR ''.''"
  by (simp add: lower_char_def split: option.splits if_splits)

lemma lower_char_dot_self: "lower_char CHR ''.'' = CHR ''.''"
  by (simp add: lower_char_dot)

lemma lowered_suffix:
  assumes "endsWith (toLowerCase s) [CHR ''.'', a, b, c]"
    and "a \<noteq> CHR ''.''" "b \<noteq> CHR ''.''" "c \<noteq> CHR ''.''"
  shows "map_option toLowerCase (pop (split_on CHR ''.'' s)) = Some [a, b, c]"
proof -
  from assms(1) obtain p where "map lower_char s = p @ [CHR ''.'', a, b, c]"
    by (auto simp: endsWith_iff toLowerCase_def)
  then obtain p' e where s: "s = p' @ e" and e: "map lower_char e = [CHR ''.'', a, b, c]"
    by (auto simp: map_eq_append_conv)
  from e obtain c0 c1 c2 c3 where e4: "e = [c0, c1, c2, c3]"
    and l: "lower_char c0 = CHR ''.''" "lower_char c1 = a" "lower_char c2 = b" "lower_char c3 = c"
    by (auto simp: map_eq_Cons_conv)
  from l(1) have c0: "c0 = CHR ''.''" by (simp add: lower_char_dot)
  have nodot: "CHR ''.'' \<notin> set [c1, c2, c3]"
    using l assms(2-4) lower_char_dot_self by auto
  have "pop (split_on CHR ''.'' s) = Some [c1, c2, c3]"
    unfolding s e4 c0 using pop_split_on [OF nodot, of p'] by simp
  then show ?thesis using l by (simp add: toLowerCase_def)
qed

lemma fileExtension_of_cad:
  "isCADFile f \<Longrightarrow>
   fileExtension_of f = (if endsWith (toLowerCase (fname f)) ''.dwg'' then ''dwg'' else ''dxf'')"
proof -
  assume "isCADFile f"
  then consider "endsWith (toLowerCase (fname f)) ''.dwg''"
    | "\<not> endsWith (toLowerCase (fname f)) ''.dwg''" "endsWith (toLowerCase (fname f)) ''.dxf''"
    by (auto simp: isCADFile_def Let_def)
  then show ?thesis
  proof cases
    case 1
    from lowered_suffix [OF 1] have "map_option toLowerCase (pop (split_on CHR ''.'' (fname f))) = Some ''dwg''"
      by simp
    with 1 show ?thesis by (auto simp: fileExtension_of_def split: option.splits)
  next
    case 2
    from lowered_suffix [OF 2(2)] have "map_option toLowerCase (pop (split_on CHR ''.'' (fname f))) = Some ''dxf''"
      by simp
    with 2 show ?thesis by (auto simp: fileExtension_of_def split: option.splits)
  qed
qed

lemma index_of_nth: "distinct xs \<Longrightarrow> i < length xs \<Longrightarrow> index_of (xs ! i) xs = i"
proof (induction xs arbitrary: i)
  case Nil
  then show ?case by simp
next
  case (Cons x xs)
  then show ?case by (cases i) auto
qed

lemma digit_char_decimal: "d < 10 \<Longrightarrow> digit_char d \<in> set ''0123456789''"
proof -
  assume "d < 10"
  then have "d < length ''0123456789''" by simp
  then show ?thesis unfolding digit_char_def by (rule nth_mem)
qed

lemma show_nat_decimal: "decimal (show_nat n)"
proof (induction n rule: show_nat.induct)
  case (1 n)
  show ?case
  proof (cases "n < 10")
    case True
    then show ?thesis using digit_char_decimal [of n]
      by (subst show_nat.simps) (simp add: decimal_def)
  next
    case False
    have "n mod 10 < 10" by simp
    from digit_char_decimal [OF this] 1 [OF False] False show ?thesis
      by (subst show_nat.simps) (simp add: decimal_def)
  qed
qed

lemma length_show_nat_1: "n < 10 \<Longrightarrow> length (show_nat n) = 1"
  by (subst show_nat.simps) simp

lemma length_show_nat_2: "10 \<le> n \<Longrightarrow> n < 100 \<Longrightarrow> length (show_nat n) = 2"
  by (subst show_nat.simps) (simp add: length_show_nat_1)

lemma length_show_nat_3: "100 \<le> n \<Longrightarrow> n < 1000 \<Longrightarrow> length (show_nat n) = 3"
  by (subst show_nat.simps) (simp add: length_show_nat_2)

lemma length_show_nat_4: "1000 \<le> n \<Longrightarrow> n < 10000 \<Longrightarrow> length (show_nat n) = 4"
  by (subst show_nat.simps) (simp add: length_show_nat_3)

lemma month_two_digits:
  "m < 12 \<Longrightarrow> length (padStart 2 CHR ''0'' (show_nat (m + 1))) = 2
     \<and> decimal (padStart 2 CHR ''0'' (show_nat (m + 1)))"
proof -
  assume m: "m < 12"
  have d: "decimal (show_nat (m + 1))" by (rule show_nat_decimal)
  show ?thesis
  proof (cases "m + 1 < 10")
    case True
    then show ?thesis using d by (simp add: padStart_def length_show_nat_1 decimal_def)
  next
    case False
    with m have "length (show_nat (m + 1)) = 2" by (intro length_show_nat_2) auto
    then show ?thesis using d by (simp add: padStart_def)
  qed
qed


section \<open>Store keys\<close>

lemma POST_200:
  "status (POST pe ce (form_of f)) = 200 \<Longrightarrow>
   isCADFile f \<and> POST pe ce (form_of f) = json_response (upload_result pe ce f) 200"
  by (auto simp: POST_def form_of_def isCADFile_def Let_def json_response_def json_error_def
      upload_failed_def split: option.splits if_splits)

lemma s3_key_of_result:
  "js_get (upload_result pe ce f) ''s3_key'' = JString (s3Key_of ce (fileExtension_of f))"
  by (simp add: upload_result_def Let_def)

lemma same_length_prefix:
  "xs @ us = ys @ vs \<Longrightarrow> length xs = length ys \<Longrightarrow> us = vs"
  by simp

lemma same_length_suffix:
  "xs @ us = ys @ vs \<Longrightarrow> length us = length vs \<Longrightarrow> xs = ys"
  by simp

lemma index_of_digit: "d < 10 \<Longrightarrow> index_of (digit_char d) ''0123456789'' = d"
  unfolding digit_char_def by (rule index_of_nth) simp_all

lemma decimal_value_show_nat: "decimal_value (show_nat n) = n"
proof (induction n rule: show_nat.induct)
  case (1 n)
  show ?case
  proof (cases "n < 10")
    case True
    then have "show_nat n = [digit_char n]" by (subst show_nat.simps) simp
    moreover have "decimal_value [digit_char n] = index_of (digit_char n) ''0123456789''"
      by (simp add: decimal_value_def del: index_of.simps)
    ultimately show ?thesis using index_of_digit [OF True] by simp
  next
    case False
    have m: "n mod 10 < 10" by simp
    have "decimal_value (show_nat (n div 10) @ [digit_char (n mod 10)])
        = 10 * decimal_value (show_nat (n div 10)) + index_of (digit_char (n mod 10)) ''0123456789''"
      by (simp add: decimal_value_def del: index_of.simps)
    also have "\<dots> = 10 * (n div 10) + n mod 10"
      using 1 [OF False] index_of_digit [OF m] by simp
    also have "\<dots> = n" by simp
    finally show ?thesis using False by (subst show_nat.simps) simp
  qed
qed

lemma decimal_value_zeros: "foldl (\<lambda>a c. 10 * a + index_of c ''0123456789'') 0 (replicate k CHR ''0'') = 0"
  by (induction k) simp_all

lemma decimal_value_padStart: "decimal_value (padStart k CHR ''0'' s) = decimal_value s"
  by (simp add: decimal_value_def padStart_def decimal_value_zeros del: index_of.simps)

lemma s3Key_of_eq_iff:
  assumes "length (show_nat (fullYear ce1)) = length (show_nat (fullYear ce2))"
    and "length (padStart 2 CHR ''0'' (show_nat (monthIndex ce1 + 1)))
         = length (padStart 2 CHR ''0'' (show_nat (monthIndex ce2 + 1)))"
    and "length e1 = length e2"
  shows "s3Key_of ce1 e1 = s3Key_of ce2 e2 \<longleftrightarrow>
         uuidv4 ce1 = uuidv4 ce2 \<and> fullYear ce1 = fullYear ce2 \<and>
         monthIndex ce1 = monthIndex ce2 \<and> e1 = e2"
proof
  assume "uuidv4 ce1 = uuidv4 ce2 \<and> fullYear ce1 = fullYear ce2 \<and>
         monthIndex ce1 = monthIndex ce2 \<and> e1 = e2"
  then show "s3Key_of ce1 e1 = s3Key_of ce2 e2" by (simp add: s3Key_of_def)
next
  let ?y1 = "show_nat (fullYear ce1)" and ?y2 = "show_nat (fullYear ce2)"
  let ?m1 = "padStart 2 CHR ''0'' (show_nat (monthIndex ce1 + 1))"
  let ?m2 = "padStart 2 CHR ''0'' (show_nat (monthIndex ce2 + 1))"
  assume "s3Key_of ce1 e1 = s3Key_of ce2 e2"
  then have k: "?y1 @ (''/'' @ ?m1 @ ''/'' @ uuidv4 ce1 @ ''.'' @ e1)
      = ?y2 @ (''/'' @ ?m2 @ ''/'' @ uuidv4 ce2 @ ''.'' @ e2)"
    by (simp add: s3Key_of_def)
  from same_length_suffix [OF k] assms(1) k have y: "?y1 = ?y2"
    by (metis append_eq_append_conv)
  from same_length_prefix [OF k assms(1)]
  have k2: "?m1 @ (''/'' @ uuidv4 ce1 @ ''.'' @ e1) = ?m2 @ (''/'' @ uuidv4 ce2 @ ''.'' @ e2)"
    by simp
  from k2 assms(2) have m: "?m1 = ?m2" by (metis append_eq_append_conv)
  from same_length_prefix [OF k2 assms(2)]
  have k3: "uuidv4 ce1 @ (''.'' @ e1) = uuidv4 ce2 @ (''.'' @ e2)" by simp
  have l: "length (''.'' @ e1) = length (''.'' @ e2)" using assms(3) by simp
  from same_length_suffix [OF k3 l] have u: "uuidv4 ce1 = uuidv4 ce2" .
  with k3 have e: "e1 = e2" by simp
  from y have "decimal_value ?y1 = decimal_value ?y2" by simp
  then have yy: "fullYear ce1 = fullYear ce2" by (simp add: decimal_value_show_nat)
  from m have "decimal_value ?m1 = decimal_value ?m2" by simp
  then have mm: "monthIndex ce1 = monthIndex ce2"
    by (simp add: decimal_value_padStart decimal_value_show_nat)
  from u yy mm e show "uuidv4 ce1 = uuidv4 ce2 \<and> fullYear ce1 = fullYear ce2 \<and>
         monthIndex ce1 = monthIndex ce2 \<and> e1 = e2" by simp
qed

text \<open>
  C6. An accepted upload, served while the clock's year is between 1000 and 9999, returns
  the store key \<open>user-uploads/drawings/\<close>, the year in its four decimal digits, \<open>/\<close>,
  the month (the clock's month index plus one) in two decimal digits, \<open>/\<close>, the
  identifier generated in this call, \<open>.\<close> and the lowercased extension of the original
  name, which is \<open>dwg\<close> or \<open>dxf\<close>. Two such uploads return the same key exactly when
  their generated identifiers, years, months and extensions all agree: whatever the names
  and bytes of the files, different identifiers give different keys, and a repeated
  identifier within a month gives the same key again.
\<close>

theorem store_key_shape_and_freshness:
  assumes "status (POST pe ce1 (form_of f1)) = 200"
    and "status (POST pe ce2 (form_of f2)) = 200"
    and "1000 \<le> fullYear ce1" "fullYear ce1 < 10000" "monthIndex ce1 < 12"
    and "1000 \<le> fullYear ce2" "fullYear ce2 < 10000" "monthIndex ce2 < 12"
  shows "js_get (body (POST pe ce1 (form_of f1))) ''s3_key''
           = JString (''user-uploads/drawings/'' @ show_nat (fullYear ce1) @ ''/''
               @ padStart 2 CHR ''0'' (show_nat (monthIndex ce1 + 1)) @ ''/''
               @ uuidv4 ce1 @ ''.'' @ fileExtension_of f1) \<and>
         length (show_nat (fullYear ce1)) = 4 \<and> decimal (show_nat (fullYear ce1)) \<and>
         decimal_value (show_nat (fullYear ce1)) = fullYear ce1 \<and>
         length (padStart 2 CHR ''0'' (show_nat (monthIndex ce1 + 1))) = 2 \<and>
         decimal (padStart 2 CHR ''0'' (show_nat (monthIndex ce1 + 1))) \<and>
         decimal_value (padStart 2 CHR ''0'' (show_nat (monthIndex ce1 + 1))) = monthIndex ce1 + 1 \<and>
         map_option toLowerCase (pop (split_on CHR ''.'' (fname f1))) = Some (fileExtension_of f1) \<and>
         (fileExtension_of f1 = ''dwg'' \<or> fileExtension_of f1 = ''dxf'') \<and>
         (js_get (body (POST pe ce1 (form_of f1))) ''s3_key''
            = js_get (body (POST pe ce2 (form_of f2))) ''s3_key''
          \<longleftrightarrow> uuidv4 ce1 = uuidv4 ce2 \<and> fullYear ce1 = fullYear ce2 \<and>
              monthIndex ce1 = monthIndex ce2 \<and> fileExtension_of f1 = fileExtension_of f2)"
proof -
  from POST_200 [OF assms(1)] have cad1: "isCADFile f1"
    and k1: "js_get (body (POST pe ce1 (form_of f1))) ''s3_key'' = JString (s3Key_of ce1 (fileExtension_of f1))"
    by (simp_all add: s3_key_of_result json_response_def)
  from POST_200 [OF assms(2)] have cad2: "isCADFile f2"
    and k2: "js_get (body (POST pe ce2 (form_of f2))) ''s3_key'' = JString (s3Key_of ce2 (fileExtension_of f2))"
    by (simp_all add: s3_key_of_result json_response_def)
  have e1: "fileExtension_of f1 = ''dwg'' \<or> fileExtension_of f1 = ''dxf''"
    using fileExtension_of_cad [OF cad1] by (simp split: if_splits)
  have e2: "fileExtension_of f2 = ''dwg'' \<or> fileExtension_of f2 = ''dxf''"
    using fileExtension_of_cad [OF cad2] by (simp split: if_splits)
  have p1: "map_option toLowerCase (pop (split_on CHR ''.'' (fname f1))) = Some (fileExtension_of f1)"
    using e1 by (auto simp: fileExtension_of_def split: option.splits)
  have y1: "length (show_nat (fullYear ce1)) = 4" using assms(3,4) by (rule length_show_nat_4)
  have y2: "length (show_nat (fullYear ce2)) = 4" using assms(6,7) by (rule length_show_nat_4)
  note m1 = month_two_digits [OF assms(5)] and m2 = month_two_digits [OF assms(8)]
  have le: "length (fileExtension_of f1) = length (fileExtension_of f2)" using e1 e2 by auto
  have shape: "js_get (body (POST pe ce1 (form_of f1))) ''s3_key''
           = JString (''user-uploads/drawings/'' @ show_nat (fullYear ce1) @ ''/''
               @ padStart 2 CHR ''0'' (show_nat (monthIndex ce1 + 1)) @ ''/''
               @ uuidv4 ce1 @ ''.'' @ fileExtension_of f1)"
    using k1 by (simp add: s3Key_of_def)
  have iff: "js_get (body (POST pe ce1 (form_of f1))) ''s3_key''
            = js_get (body (POST pe ce2 (form_of f2))) ''s3_key''
          \<longleftrightarrow> uuidv4 ce1 = uuidv4 ce2 \<and> fullYear ce1 = fullYear ce2 \<and>
              monthIndex ce1 = monthIndex ce2 \<and> fileExtension_of f1 = fileExtension_of f2"
    unfolding k1 k2 using s3Key_of_eq_iff [OF _ _ le, of ce1 ce2] y1 y2 m1 m2 by simp
  from shape y1 m1 p1 e1 iff show ?thesis
    by (simp add: show_nat_decimal decimal_value_show_nat decimal_value_padStart)
qed

theorem store_key_shape_and_freshness_witness:
  "js_get (body (POST sample_penv (sample_call 0) (form_of untyped_dwg))) ''s3_key''
     = JString ''user-uploads/drawings/2025/03/3f2b8c1e-5d4a-4e6f-9a7b-0c1d2e3f4a5b.dwg'' \<and>
   js_get (body (POST sample_penv (sample_call 0) (form_of untyped_dwg))) ''s3_key''
     \<noteq> js_get (body (POST sample_penv (sample_call 1) (form_of untyped_dwg))) ''s3_key''"
proof -
  have a: "status (POST sample_penv (sample_call 0) (form_of untyped_dwg)) = 200"
    "status (POST sample_penv (sample_call 1) (form_of untyped_dwg)) = 200"
    by (simp_all add: form_of_def untyped_dwg_def run_defs)
  have c: "1000 \<le> fullYear (sample_call 0)" "fullYear (sample_call 0) < 10000"
    "monthIndex (sample_call 0) < 12"
    "1000 \<le> fullYear (sample_call 1)" "fullYear (sample_call 1) < 10000"
    "monthIndex (sample_call 1) < 12"
    by (simp_all add: sample_call_def)
  have u: "uuidv4 (sample_call 0) \<noteq> uuidv4 (sample_call 1)" by (simp add: sample_call_def)
  have x: "show_nat (fullYear (sample_call 0)) = ''2025''"
    "padStart 2 CHR ''0'' (show_nat (monthIndex (sample_call 0) + 1)) = ''03''"
    "fileExtension_of untyped_dwg = ''dwg''"
    "uuidv4 (sample_call 0) = ''3f2b8c1e-5d4a-4e6f-9a7b-0c1d2e3f4a5b''"
    by (simp_all add: sample_call_def untyped_dwg_def run_defs)
  note t = store_key_shape_and_freshness [OF a c]
  from t have "js_get (body (POST sample_penv (sample_call 0) (form_of untyped_dwg))) ''s3_key''
     = JString ''user-uploads/drawings/2025/03/3f2b8c1e-5d4a-4e6f-9a7b-0c1d2e3f4a5b.dwg''"
    unfolding x by simp
  moreover from t u have
    "js_get (body (POST sample_penv (sample_call 0) (form_of untyped_dwg))) ''s3_key''
     \<noteq> js_get (body (POST sample_penv (sample_call 1) (form_of untyped_dwg))) ''s3_key''"
    by blast
  ultimately show ?thesis by simp
qed

text \<open>
  The endpoint draws the identifier and never looks whether the key is taken: two different
  drawings served with the same identifier get the same key. And a clock in the year 12025
  gives a key with five digits for the year.
\<close>

theorem store_key_shape_and_freshness_counterexample:
  "status (POST sample_penv (sample_call 0) (form_of untyped_dwg)) = 200 \<and>
   status (POST sample_penv (sample_call 0) (form_of site_dwg)) = 200 \<and>
   fname untyped_dwg \<noteq> fname site_dwg \<and> fbytes untyped_dwg \<noteq> fbytes site_dwg \<and>
   js_get (body (POST sample_penv (sample_call 0) (form_of untyped_dwg))) ''s3_key''
     = js_get (body (POST sample_penv (sample_call 0) (form_of site_dwg))) ''s3_key'' \<and>
   js_get (body (POST sample_penv far_future_call (form_of untyped_dwg))) ''s3_key''
     = JString ''user-uploads/drawings/12025/03/3f2b8c1e-5d4a-4e6f-9a7b-0c1d2e3f4a5b.dwg''"
  by (simp add: far_future_call_def form_of_def untyped_dwg_def site_dwg_def sample_penv_def run_defs)


section \<open>Base64: decoding undoes encoding\<close>

lemma distinct_alphabet: "distinct alphabet"
  by (simp add: alphabet_def)

lemma length_alphabet: "length alphabet = 64"
  by (simp add: alphabet_def)

lemma char_sextet_inverse: "i < 64 \<Longrightarrow> char_sextet (sextet_char i) = i"
  by (simp add: char_sextet_def sextet_char_def index_of_nth distinct_alphabet length_alphabet)

lemma sextet_char_in: "i < 64 \<Longrightarrow> sextet_char i \<in> set alphabet"
  by (simp add: sextet_char_def length_alphabet)

lemma sextet_char_not_pad: "i < 64 \<Longrightarrow> sextet_char i \<noteq> CHR ''=''"
proof -
  assume "i < 64"
  then have "sextet_char i \<in> set alphabet" by (rule sextet_char_in)
  moreover have "CHR ''='' \<notin> set alphabet" by (simp add: alphabet_def)
  ultimately show ?thesis by auto
qed

lemma sextet_char_not_comma: "i < 64 \<Longrightarrow> sextet_char i \<noteq> CHR '',''"
proof -
  assume "i < 64"
  then have "sextet_char i \<in> set alphabet" by (rule sextet_char_in)
  moreover have "CHR '','' \<notin> set alphabet" by (simp add: alphabet_def)
  ultimately show ?thesis by auto
qed

lemma unat_byte: "unat (a :: byte) < 256"
  using unsigned_less [of a, where 'a = nat] by simp

lemma sextets_lt:
  fixes a b c :: nat
  assumes "a < 256" "b < 256" "c < 256"
  shows "a div 4 < 64" "a mod 4 * 16 < 64" "a mod 4 * 16 + b div 16 < 64"
    "b mod 16 * 4 < 64" "b mod 16 * 4 + c div 64 < 64" "c mod 64 < 64"
  using assms by simp_all

lemma regroup1:
  fixes a b :: nat
  assumes "b < 256"
  shows "a div 4 * 4 + (a mod 4 * 16 + b div 16) div 16 = a"
proof -
  have "b div 16 < 16" using assms by simp
  then have "(a mod 4 * 16 + b div 16) div 16 = a mod 4" by simp
  then show ?thesis by simp
qed

lemma regroup1': "(a::nat) div 4 * 4 + (a mod 4 * 16) div 16 = a"
  by simp

lemma regroup2:
  fixes a b c :: nat
  assumes "b < 256" "c < 256"
  shows "(a mod 4 * 16 + b div 16) mod 16 * 16 + (b mod 16 * 4 + c div 64) div 4 = b"
proof -
  have "b div 16 < 16" using assms by simp
  then have 1: "(a mod 4 * 16 + b div 16) mod 16 = b div 16" by simp
  have "c div 64 < 4" using assms by simp
  then have 2: "(b mod 16 * 4 + c div 64) div 4 = b mod 16" by simp
  show ?thesis unfolding 1 2 by simp
qed

lemma regroup2':
  fixes a b :: nat
  assumes "b < 256"
  shows "(a mod 4 * 16 + b div 16) mod 16 * 16 + (b mod 16 * 4) div 4 = b"
proof -
  have "b div 16 < 16" using assms by simp
  then have 1: "(a mod 4 * 16 + b div 16) mod 16 = b div 16" by simp
  show ?thesis unfolding 1 by simp
qed

lemma regroup3:
  fixes b c :: nat
  assumes "c < 256"
  shows "(b mod 16 * 4 + c div 64) mod 4 * 64 + c mod 64 = c"
proof -
  have "c div 64 < 4" using assms by simp
  then have 1: "(b mod 16 * 4 + c div 64) mod 4 = c div 64" by simp
  show ?thesis unfolding 1 by simp
qed


lemma decode_one: "base64_decode (base64 [a]) = [a]"
proof -
  note lt = sextets_lt [OF unat_byte [of a] unat_byte [of a] unat_byte [of a]]
  show ?thesis
    using lt by (simp add: char_sextet_inverse sextet_char_not_pad regroup1')
qed

lemma decode_two: "base64_decode (base64 [a, b]) = [a, b]"
proof -
  note lt = sextets_lt [OF unat_byte [of a] unat_byte [of b] unat_byte [of b]]
  show ?thesis
    using lt unat_byte [of b]
    by (simp add: char_sextet_inverse sextet_char_not_pad regroup1 regroup2')
qed

lemma decode_three:
  "base64_decode (base64 (a # b # c # rest)) = a # b # c # base64_decode (base64 rest)"
proof -
  note lt = sextets_lt [OF unat_byte [of a] unat_byte [of b] unat_byte [of c]]
  show ?thesis
    using lt unat_byte [of b] unat_byte [of c]
    by (simp add: char_sextet_inverse sextet_char_not_pad regroup1 regroup2 regroup3)
qed

lemma base64_decode_base64: "base64_decode (base64 bs) = bs"
proof (induction bs rule: base64.induct)
  case 1
  then show ?case by simp
next
  case (2 a)
  then show ?case by (rule decode_one)
next
  case (3 a b)
  then show ?case by (rule decode_two)
next
  case (4 a b c rest)
  then show ?case by (simp only: decode_three)
qed

lemma comma_not_sextet_char: "i < 64 \<Longrightarrow> CHR '','' \<noteq> sextet_char i"
  using sextet_char_not_comma [of i] by auto

lemma base64_no_comma: "CHR '','' \<notin> set (base64 bs)"
proof (induction bs rule: base64.induct)
  case 1
  then show ?case by simp
next
  case (2 a)
  note lt = sextets_lt [OF unat_byte [of a] unat_byte [of a] unat_byte [of a]]
  from lt show ?case by (simp add: comma_not_sextet_char)
next
  case (3 a b)
  note lt = sextets_lt [OF unat_byte [of a] unat_byte [of b] unat_byte [of b]]
  from lt show ?case by (simp add: comma_not_sextet_char)
next
  case (4 a b c rest)
  note lt = sextets_lt [OF unat_byte [of a] unat_byte [of b] unat_byte [of c]]
  from lt 4 show ?case by (simp add: comma_not_sextet_char)
qed

lemma split_data_url:
  assumes "CHR '','' \<notin> set t"
  shows "at_index (split_on CHR '','' (''data:'' @ t @ '';base64,'' @ base64 bs)) 1
           = Some (base64 bs)"
proof -
  have "CHR '','' \<notin> set (''data:'' @ t @ '';base64'')" using assms by simp
  then have "split_on CHR '','' (''data:'' @ t @ '';base64'') = [''data:'' @ t @ '';base64'']"
    by (rule split_on_no_sep)
  moreover have "split_on CHR '','' (base64 bs) = [base64 bs]"
    using base64_no_comma by (rule split_on_no_sep)
  moreover have "''data:'' @ t @ '';base64,'' @ base64 bs
      = (''data:'' @ t @ '';base64'') @ CHR '','' # base64 bs" by simp
  ultimately have "split_on CHR '','' (''data:'' @ t @ '';base64,'' @ base64 bs)
      = [''data:'' @ t @ '';base64'', base64 bs]"
    by (simp only: split_on_append) simp
  then show ?thesis by simp
qed

lemma fileToBase64_plain:
  "\<not> readFails w f \<Longrightarrow> CHR '','' \<notin> set (ftype f) \<Longrightarrow>
   fileToBase64 w f = Inr (JString (base64 (fbytes f)))"
proof -
  assume r: "\<not> readFails w f" and t: "CHR '','' \<notin> set (ftype f)"
  have "CHR '','' \<notin> set (if ftype f = [] then ''application/octet-stream'' else ftype f)"
    using t by simp
  from split_data_url [OF this] r show ?thesis
    by (simp only: fileToBase64_def readAsDataURL_def) simp
qed

lemma fileToBase64_readFails: "fileToBase64 w f = Inr d \<Longrightarrow> \<not> readFails w f"
  by (simp add: fileToBase64_def split: if_splits)

lemma image_or_pdf_no_comma:
  "t \<in> set supportedImageTypes \<or> t = ''application/pdf'' \<Longrightarrow> CHR '','' \<notin> set t"
  by (auto simp: supportedImageTypes_def)

section \<open>The encoder strips the prefix\<close>

text \<open>
  For every file that is read and whose declared media type contains no comma, the
  encoder returns exactly the base64 text of the file's bytes: the prefix
  \<open>data:...;base64,\<close> is gone and no comma is left. Decoding the base64 text of any bytes
  gives the bytes back. Every image block and every inline PDF block, from either
  builder, carries that text as its data.
\<close>

theorem base64_round_trip:
  "(\<not> readFails w f \<and> CHR '','' \<notin> set (ftype f) \<longrightarrow>
      fileToBase64 w f = Inr (JString (base64 (fbytes f)))) \<and>
   CHR '','' \<notin> set (base64 (fbytes f)) \<and>
   base64_decode (base64 (fbytes f)) = fbytes f \<and>
   (\<forall>b. fst (fileToContentBlock w f s) = Inr b \<and> js_get b ''source_type'' = JString ''base64''
        \<longrightarrow> js_get b ''data'' = JString (base64 (fbytes f))) \<and>
   (\<forall>b. fst (fileToContentBlock_inline w f s) = Inr b \<and>
        (ftype f \<in> set supportedImageTypes \<or> ftype f = ''application/pdf'')
        \<longrightarrow> js_get b ''data'' = JString (base64 (fbytes f)))"
proof (intro conjI allI impI)
  assume "\<not> readFails w f \<and> CHR '','' \<notin> set (ftype f)"
  then show "fileToBase64 w f = Inr (JString (base64 (fbytes f)))"
    by (simp add: fileToBase64_plain)
next
  show "CHR '','' \<notin> set (base64 (fbytes f))" by (rule base64_no_comma)
next
  show "base64_decode (base64 (fbytes f)) = fbytes f" by (rule base64_decode_base64)
next
  fix b
  assume a: "fst (fileToContentBlock w f s) = Inr b \<and> js_get b ''source_type'' = JString ''base64''"
  show "js_get b ''data'' = JString (base64 (fbytes f))"
  proof (cases "fileToBase64 w f")
    case (Inl t)
    with a show ?thesis by (auto simp: fileToContentBlock_def split: if_splits)
  next
    case (Inr d)
    then have r: "\<not> readFails w f" by (rule fileToBase64_readFails)
    from a Inr have t: "ftype f \<in> set supportedImageTypes \<or> ftype f = ''application/pdf''"
      by (auto simp: fileToContentBlock_def upload_branch_def Let_def s3_block_def
          split: if_splits sum.splits)
    from fileToBase64_plain [OF r image_or_pdf_no_comma [OF t]] a t show ?thesis
      by (auto simp: fileToContentBlock_def image_block_def inline_file_block_def
          split: if_splits)
  qed
next
  fix b
  assume a: "fst (fileToContentBlock_inline w f s) = Inr b \<and>
        (ftype f \<in> set supportedImageTypes \<or> ftype f = ''application/pdf'')"
  then have t: "ftype f \<in> set supportedImageTypes \<or> ftype f = ''application/pdf''" by simp
  show "js_get b ''data'' = JString (base64 (fbytes f))"
  proof (cases "fileToBase64 w f")
    case (Inl t)
    with a show ?thesis by (auto simp: fileToContentBlock_inline_def split: if_splits)
  next
    case (Inr d)
    then have r: "\<not> readFails w f" by (rule fileToBase64_readFails)
    from fileToBase64_plain [OF r image_or_pdf_no_comma [OF t]] a show ?thesis
      by (auto simp: fileToContentBlock_inline_def image_block_def inline_file_block_def
          split: if_splits)
  qed
qed

theorem base64_round_trip_witness:
  "fileToBase64 quiet_world png_named_dwg = Inr (JString ''eA=='') \<and>
   base64_decode ''eA=='' = fbytes png_named_dwg \<and>
   (\<exists>b. fst (fileToContentBlock quiet_world png_named_dwg empty_ui) = Inr b \<and>
        js_get b ''data'' = JString ''eA=='')"
proof -
  have e: "base64 (fbytes png_named_dwg) = ''eA==''"
    by (simp add: png_named_dwg_def sextet_char_def alphabet_def)
  have h: "\<not> readFails quiet_world png_named_dwg \<and> CHR '','' \<notin> set (ftype png_named_dwg)"
    by (simp add: quiet_world_def png_named_dwg_def)
  obtain b where b: "fst (fileToContentBlock quiet_world png_named_dwg empty_ui) = Inr b"
    and sb: "js_get b ''source_type'' = JString ''base64''"
    by (simp add: png_named_dwg_def run_defs)
  from base64_round_trip [of quiet_world png_named_dwg empty_ui] h b sb e show ?thesis
    by auto
qed

section \<open>The encoder and a comma in the media type\<close>

lemma base64_chars: "c \<in> set (base64 bs) \<Longrightarrow> c \<in> set alphabet \<or> c = CHR ''=''"
proof (induction bs rule: base64.induct)
  case 1
  then show ?case by simp
next
  case (2 a)
  note lt = sextets_lt [OF unat_byte [of a] unat_byte [of a] unat_byte [of a]]
  from 2 lt show ?case using sextet_char_in by auto
next
  case (3 a b)
  note lt = sextets_lt [OF unat_byte [of a] unat_byte [of b] unat_byte [of b]]
  from 3 lt show ?case using sextet_char_in by auto
next
  case (4 a b c rest)
  note lt = sextets_lt [OF unat_byte [of a] unat_byte [of b] unat_byte [of c]]
  from 4 lt show ?case using sextet_char_in by auto
qed

lemma base64_no_semicolon: "CHR '';'' \<notin> set (base64 bs)"
proof
  assume "CHR '';'' \<in> set (base64 bs)"
  from base64_chars [OF this] show False by (simp add: alphabet_def)
qed

text \<open>
  C7. The encoder means to remove the prefix \<open>data:...;base64,\<close> and keeps what stands
  between the first two commas of the reader's result. For a file that is read and whose
  declared media type has one comma, that is the rest of the media type followed by
  \<open>;base64\<close>: a piece of the prefix, which is never the base64 text of the file's bytes.
\<close>

theorem encoder_splits_at_type_comma:
  assumes "\<not> readFails w f" and "ftype f = p @ CHR '','' # q"
    and "CHR '','' \<notin> set p" and "CHR '','' \<notin> set q"
  shows "fileToBase64 w f = Inr (JString (q @ '';base64'')) \<and>
         q @ '';base64'' \<noteq> base64 (fbytes f)"
proof
  have 1: "split_on CHR '','' (''data:'' @ p) = [''data:'' @ p]"
    using assms(3) by (intro split_on_no_sep) simp
  have 2: "split_on CHR '','' (q @ '';base64'') = [q @ '';base64'']"
    using assms(4) by (intro split_on_no_sep) simp
  have 3: "split_on CHR '','' (base64 (fbytes f)) = [base64 (fbytes f)]"
    using base64_no_comma by (rule split_on_no_sep)
  have "readAsDataURL f
      = (''data:'' @ p) @ CHR '','' # ((q @ '';base64'') @ CHR '','' # base64 (fbytes f))"
    using assms(2) by (simp add: readAsDataURL_def)
  then have "split_on CHR '','' (readAsDataURL f)
      = [''data:'' @ p, q @ '';base64'', base64 (fbytes f)]"
    by (simp only: split_on_append 1 2 3) simp
  then show "fileToBase64 w f = Inr (JString (q @ '';base64''))"
    using assms(1) by (simp add: fileToBase64_def)
  have "CHR '';'' \<in> set (q @ '';base64'')" by simp
  then show "q @ '';base64'' \<noteq> base64 (fbytes f)"
    using base64_no_semicolon [of "fbytes f"] by metis
qed

text \<open>
  A drawing declaring the media type \<open>a,b\<close> passes the hook's validation by its extension,
  and the builder that keeps files inline gives it the tail of the prefix as its data.
\<close>

theorem encoder_splits_at_type_comma_witness:
  "fileToBase64 quiet_world comma_typed = Inr (JString ''b;base64'') \<and>
   base64 (fbytes comma_typed) = ''eA=='' \<and>
   fst (fileToContentBlock_inline quiet_world comma_typed empty_ui)
     = Inr (inline_file_block ''a,b'' comma_typed (JString ''b;base64'')) \<and>
   isValidFile comma_typed"
proof -
  have a: "\<not> readFails quiet_world comma_typed" by (simp add: quiet_world_def)
  have b: "ftype comma_typed = ''a'' @ CHR '','' # ''b''" by (simp add: comma_typed_def)
  have r: "base64 (fbytes comma_typed) = ''eA==''"
    "fst (fileToContentBlock_inline quiet_world comma_typed empty_ui)
       = Inr (inline_file_block ''a,b'' comma_typed (JString ''b;base64''))"
    "isValidFile comma_typed"
    by (simp_all add: comma_typed_def run_defs isValidFile_def isCADFile_hook_def
        SUPPORTED_FILE_TYPES_def)
  from encoder_splits_at_type_comma [OF a b] r show ?thesis by simp
qed


section \<open>A batch is added whole or not at all\<close>

lemmas hook_defs =
  handleFileUpload_def handleWindowDrop_def handlePaste_def add_batch_def Promise_all_def
  report_rejected_def uniqueFiles_of_def invalid_notice_def duplicate_notice_def
  isValidFile_def isCADFile_hook_def isDuplicate_def isDuplicatePaste_def
  SUPPORTED_FILE_TYPES_def builds_of_def rejected_reported_def notices_added_def


lemma uploadFileToS3_Inl: "uploadFileToS3 w n f = Inl e \<Longrightarrow> \<exists>m. e = ErrorObj m"
  by (auto simp: uploadFileToS3_def split: option.splits sum.splits if_splits)

lemma upload_branch_effect: "build_effect s (upload_branch w f s)"
  by (auto simp: build_effect_def upload_branch_def Let_def notify_def
      dest: uploadFileToS3_Inl split: sum.splits)

lemma fileToBase64_Inl: "fileToBase64 w f = Inl e \<Longrightarrow> e = ReaderEvent"
  by (auto simp: fileToBase64_def split: if_splits)

lemma fileToContentBlock_effect: "build_effect s (fileToContentBlock w f s)"
proof (cases "fileToBase64 w f")
  case (Inl e)
  then have "e = ReaderEvent" by (rule fileToBase64_Inl)
  with Inl show ?thesis
    by (simp add: fileToContentBlock_def build_effect_def notify_def)
next
  case (Inr d)
  then show ?thesis
    using upload_branch_effect [of s w f]
    by (simp add: fileToContentBlock_def) (simp add: build_effect_def notify_def)
qed

lemma fileToContentBlock_inline_effect: "build_effect s (fileToContentBlock_inline w f s)"
proof (cases "fileToBase64 w f")
  case (Inl e)
  then have "e = ReaderEvent" by (rule fileToBase64_Inl)
  with Inl show ?thesis
    by (simp add: fileToContentBlock_inline_def build_effect_def notify_def)
next
  case (Inr d)
  then show ?thesis
    by (simp add: fileToContentBlock_inline_def build_effect_def notify_def)
qed

lemma run_builds_effect:
  assumes "\<And>f s. build_effect s (build f s)"
  shows "contentBlocks (snd (run_builds build fs s)) = contentBlocks s \<and>
         (\<exists>ts. toasts (snd (run_builds build fs s)) = toasts s @ ts \<and>
               length (filter is_error_toast ts)
                 = length (filter build_error (fst (run_builds build fs s))) \<and>
               (\<forall>x. ToastError (''Error processing '' @ x) \<notin> set ts))"
proof (induction fs arbitrary: s)
  case Nil
  then show ?case by simp
next
  case (Cons f fs)
  obtain r s1 where b: "build f s = (r, s1)" by (cases "build f s")
  obtain rs s2 where rb: "run_builds build fs s1 = (rs, s2)" by (cases "run_builds build fs s1")
  from assms [of s f] b obtain t1 where
    c1: "contentBlocks s1 = contentBlocks s" and t1: "toasts s1 = toasts s @ t1"
    and n1: "length (filter is_error_toast t1) = (if build_error r then 1 else 0)"
    and x1: "\<forall>x. ToastError (''Error processing '' @ x) \<notin> set t1"
    by (auto simp: build_effect_def)
  from Cons.IH [of s1] rb obtain t2 where
    c2: "contentBlocks s2 = contentBlocks s1" and t2: "toasts s2 = toasts s1 @ t2"
    and n2: "length (filter is_error_toast t2) = length (filter build_error rs)"
    and x2: "\<forall>x. ToastError (''Error processing '' @ x) \<notin> set t2"
    by auto
  have "toasts s2 = toasts s @ (t1 @ t2)" using t1 t2 by simp
  moreover have "length (filter is_error_toast (t1 @ t2)) = length (filter build_error (r # rs))"
    using n1 n2 by simp
  moreover have "\<forall>x. ToastError (''Error processing '' @ x) \<notin> set (t1 @ t2)"
    using x1 x2 by simp
  ultimately show ?case using b rb c1 c2 by (simp del: append_assoc)
qed

lemma joined_Inl_iff: "isl (joined rs) \<longleftrightarrow> list_ex isl rs"
  by (induction rs rule: joined.induct) (auto split: sum.splits)

lemma report_rejected_effect:
  "contentBlocks (rejected_reported a s) = contentBlocks s \<and>
   (\<exists>vs. toasts (rejected_reported a s) = toasts s @ vs \<and>
         (\<forall>x. ToastError (''Error processing '' @ x) \<notin> set vs))"
  by (cases a)
     (auto simp: rejected_reported_def report_rejected_def Let_def notify_def
        invalid_notice_def duplicate_notice_def)

lemma failure_of_shape: "\<exists>x. failure_of a = ''Error processing '' @ x"
  by (cases a) simp_all

lemma add_batch_Nil: "add_batch dup h t fl build [] s = s"
  by (simp add: add_batch_def uniqueFiles_of_def report_rejected_def)

lemma perform_add_batch:
  "perform build a s =
     add_batch (dup_of a) (invalid_head_of a) (invalid_tail_of a) (failure_of a) build (batch_of a) s"
proof (cases a)
  case (Select files)
  then show ?thesis by (cases files) (simp_all add: handleFileUpload_def add_batch_Nil)
next
  case (Drop dt)
  then show ?thesis by (cases dt) (simp_all add: handleWindowDrop_def add_batch_Nil)
next
  case (Paste items)
  then show ?thesis
    by (cases items) (simp_all add: handlePaste_def add_batch_Nil Let_def)
qed

lemma perform_failed:
  assumes "list_ex isl (fst (builds_of build a s))"
  shows "perform build a s = notify (ToastError (failure_of a)) (snd (builds_of build a s))"
proof -
  obtain rs s3 where r: "builds_of build a s = (rs, s3)" by (cases "builds_of build a s")
  with assms have "rs \<noteq> []" by auto
  then have u: "uniqueFiles_of (dup_of a) (batch_of a) s \<noteq> []"
    using r by (auto simp: builds_of_def)
  from assms r have "isl (joined rs)" by (simp add: joined_Inl_iff)
  then obtain e where "joined rs = Inl e" by (cases "joined rs") auto
  with r u show ?thesis
    by (simp add: perform_add_batch add_batch_def Promise_all_def builds_of_def
        rejected_reported_def Let_def)
qed


lemma count_list_not_in: "x \<notin> set xs \<Longrightarrow> count_list xs x = 0"
  by (induction xs) auto

text \<open>
  C1. Whichever builder the hook is linked to and whichever action brings the batch
  (select, drop or paste): if the build of some unique file fails, the collection after
  the action is the collection before it, the handler's failure notice appears exactly
  once among the notices the action added, and the builds added one error notice for
  each build that rejected with an \<open>Error\<close> (an unsupported type, a failed upload) and none
  for a failed read.
\<close>

theorem batch_all_or_nothing:
  assumes "build = fileToContentBlock w \<or> build = fileToContentBlock_inline w"
    and "list_ex isl (fst (builds_of build a s))"
  shows "contentBlocks (perform build a s) = contentBlocks s \<and>
         count_list (notices_added s (perform build a s)) (ToastError (failure_of a)) = 1 \<and>
         length (filter is_error_toast
                  (notices_added (rejected_reported a s) (snd (builds_of build a s))))
           = length (filter build_error (fst (builds_of build a s)))"
proof -
  have eff: "\<And>f s. build_effect s (build f s)"
    using assms(1) fileToContentBlock_effect fileToContentBlock_inline_effect by auto
  let ?s2 = "rejected_reported a s"
  let ?s3 = "snd (builds_of build a s)"
  from report_rejected_effect [of a s] obtain vs where
    c2: "contentBlocks ?s2 = contentBlocks s" and t2: "toasts ?s2 = toasts s @ vs"
    and x2: "\<forall>x. ToastError (''Error processing '' @ x) \<notin> set vs"
    by auto
  from run_builds_effect [of build "uniqueFiles_of (dup_of a) (batch_of a) s" ?s2, OF eff]
  obtain ts where
    c3: "contentBlocks ?s3 = contentBlocks ?s2" and t3: "toasts ?s3 = toasts ?s2 @ ts"
    and n3: "length (filter is_error_toast ts)
               = length (filter build_error (fst (builds_of build a s)))"
    and x3: "\<forall>x. ToastError (''Error processing '' @ x) \<notin> set ts"
    by (auto simp: builds_of_def)
  note p = perform_failed [OF assms(2)]
  obtain x where fl: "failure_of a = ''Error processing '' @ x"
    using failure_of_shape by blast
  have "ToastError (failure_of a) \<notin> set (vs @ ts)" using x2 x3 fl by simp
  then have z: "count_list (vs @ ts) (ToastError (failure_of a)) = 0"
    by (rule count_list_not_in)
  have "toasts (perform build a s) = toasts s @ ((vs @ ts) @ [ToastError (failure_of a)])"
    using p t2 t3 by (simp add: notify_def)
  then have "notices_added s (perform build a s) = (vs @ ts) @ [ToastError (failure_of a)]"
    by (simp add: notices_added_def)
  then have 1: "count_list (notices_added s (perform build a s)) (ToastError (failure_of a)) = 1"
    using z by simp
  have 2: "contentBlocks (perform build a s) = contentBlocks s"
    using p c2 c3 by (simp add: notify_def)
  have "notices_added ?s2 ?s3 = ts" using t3 by (simp add: notices_added_def)
  with n3 have 3: "length (filter is_error_toast (notices_added ?s2 ?s3))
           = length (filter build_error (fst (builds_of build a s)))" by simp
  from 1 2 3 show ?thesis by simp
qed

theorem batch_all_or_nothing_witness:
  "contentBlocks (perform (fileToContentBlock unreadable_roof_world)
      (Drop (Some [street_png, roof_png])) empty_ui) = [] \<and>
   notices_added empty_ui (perform (fileToContentBlock unreadable_roof_world)
      (Drop (Some [street_png, roof_png])) empty_ui)
     = [ToastError ''Error processing dropped files. Please try again.''] \<and>
   count_list (notices_added empty_ui (perform (fileToContentBlock unreadable_roof_world)
      (Drop (Some [street_png, roof_png])) empty_ui))
      (ToastError ''Error processing dropped files. Please try again.'') = 1"
proof -
  have h: "list_ex isl (fst (builds_of (fileToContentBlock unreadable_roof_world)
      (Drop (Some [street_png, roof_png])) empty_ui))"
    by (simp add: unreadable_roof_world_def street_png_def roof_png_def run_defs hook_defs)
  have n: "notices_added empty_ui (perform (fileToContentBlock unreadable_roof_world)
      (Drop (Some [street_png, roof_png])) empty_ui)
     = [ToastError ''Error processing dropped files. Please try again.'']"
    by (simp add: unreadable_roof_world_def street_png_def roof_png_def run_defs hook_defs)
  from batch_all_or_nothing [OF _ h, of unreadable_roof_world] n show ?thesis
    by (simp add: empty_ui_def)
qed

text \<open>
  Three files are selected and the upload of the second fails: nothing is added, and two
  error notices are shown, the builder's and the handler's.
\<close>

theorem batch_all_or_nothing_counterexample:
  "list_ex isl (fst (builds_of (fileToContentBlock store_down_world)
      (Select (Some [street_png, site_dwg, roof_png])) empty_ui)) \<and>
   contentBlocks (perform (fileToContentBlock store_down_world)
      (Select (Some [street_png, site_dwg, roof_png])) empty_ui) = [] \<and>
   filter is_error_toast (toasts (perform (fileToContentBlock store_down_world)
      (Select (Some [street_png, site_dwg, roof_png])) empty_ui))
     = [ToastError ''Failed to upload site.dwg. Please try again.'',
        ToastError ''Error processing files. Please try again.'']"
  by (simp add: street_png_def site_dwg_def roof_png_def run_defs hook_defs)


section \<open>Python files and the endpoint\<close>

lemma endsWith_last: "endsWith s suf \<Longrightarrow> suf \<noteq> [] \<Longrightarrow> last s = last suf"
  by (auto simp: endsWith_iff)

lemma python_not_cad: "isPythonFile f \<Longrightarrow> \<not> isCADFile f"
proof
  assume "isPythonFile f"
  then have "last (toLowerCase (fname f)) = CHR ''y''"
    using endsWith_last [of "toLowerCase (fname f)" "''.py''"] by (simp add: isPythonFile_def)
  moreover assume "isCADFile f"
  then have "last (toLowerCase (fname f)) = CHR ''g'' \<or> last (toLowerCase (fname f)) = CHR ''f''"
    using endsWith_last [of "toLowerCase (fname f)" "''.dwg''"]
      endsWith_last [of "toLowerCase (fname f)" "''.dxf''"]
    by (auto simp: isCADFile_def Let_def)
  ultimately show False by auto
qed

text \<open>
  C5. The builder sends Python files to the uploader, and the endpoint refuses every file
  whose name does not end in \<open>.dwg\<close> or \<open>.dxf\<close>. So for a Python file, and for any file
  without a CAD extension, the upload always fails, with the endpoint's message when the
  request reaches it, and the builder never returns a store reference for it.
\<close>

theorem python_upload_rejected:
  "isPythonFile f \<or> \<not> isCADFile f \<Longrightarrow>
   (\<exists>m. uploadFileToS3 w n f = Inl (ErrorObj m)) \<and>
   (fetchThrows w f = None \<longrightarrow>
      uploadFileToS3 w n f
        = Inl (ErrorObj ''Failed to upload file to S3: Only .dwg and .dxf files are supported'')) \<and>
   (\<forall>b. fst (fileToContentBlock w f s) = Inr b \<longrightarrow>
        js_get b ''source_type'' = JString ''base64'')"
proof -
  assume "isPythonFile f \<or> \<not> isCADFile f"
  then have nc: "\<not> isCADFile f" using python_not_cad by blast
  have 1: "\<exists>m. uploadFileToS3 w n f = Inl (ErrorObj m)"
  proof (cases "uploadFileToS3 w n f")
    case (Inl e)
    then show ?thesis using uploadFileToS3_Inl by blast
  next
    case (Inr r)
    with nc show ?thesis using uploadFileToS3_Inr by blast
  qed
  have 2: "fetchThrows w f = None \<longrightarrow>
      uploadFileToS3 w n f
        = Inl (ErrorObj ''Failed to upload file to S3: Only .dwg and .dxf files are supported'')"
    using nc
    by (simp add: uploadFileToS3_def form_of_def POST_def isCADFile_def Let_def json_error_def
        json_response_def response_ok_def error_text_def)
  have 3: "\<forall>b. fst (fileToContentBlock w f s) = Inr b \<longrightarrow>
        js_get b ''source_type'' = JString ''base64''"
  proof (intro allI impI)
    fix b assume b: "fst (fileToContentBlock w f s) = Inr b"
    from fileToContentBlock_cases [OF b] consider
      d where "b = image_block f d" | d where "b = inline_file_block ''application/pdf'' f d"
      | r where "b = s3_block r" by blast
    then show "js_get b ''source_type'' = JString ''base64''"
    proof cases
      case 1
      then show ?thesis by (simp add: image_block_def)
    next
      case 2
      then show ?thesis by (simp add: inline_file_block_def)
    next
      case 3
      with b have "fst (upload_branch w f s) = Inr b"
        by (auto simp: fileToContentBlock_def s3_block_def image_block_def
            inline_file_block_def notify_def split: if_splits sum.splits)
      with nc show ?thesis using upload_branch_Inr by blast
    qed
  qed
  from 1 2 3 show ?thesis by simp
qed

theorem python_upload_rejected_witness:
  "isPythonFile script_py \<and>
   uploadFileToS3 quiet_world 0 script_py
     = Inl (ErrorObj ''Failed to upload file to S3: Only .dwg and .dxf files are supported'') \<and>
   fileToContentBlock quiet_world script_py empty_ui
     = (Inl (ErrorObj ''Failed to upload file to S3: Only .dwg and .dxf files are supported''),
        \<lparr>contentBlocks = [],
         toasts = [ToastInfo ''Uploading script.py to cloud storage...'',
                   ToastError ''Failed to upload script.py. Please try again.''],
         served = 1\<rparr>)"
proof -
  have p: "isPythonFile script_py" by (simp add: script_py_def run_defs)
  have q: "fetchThrows quiet_world script_py = None" by (simp add: quiet_world_def)
  have r: "fileToContentBlock quiet_world script_py empty_ui
     = (Inl (ErrorObj ''Failed to upload file to S3: Only .dwg and .dxf files are supported''),
        \<lparr>contentBlocks = [],
         toasts = [ToastInfo ''Uploading script.py to cloud storage...'',
                   ToastError ''Failed to upload script.py. Please try again.''],
         served = 1\<rparr>)"
    by (simp add: script_py_def run_defs)
  from python_upload_rejected [of script_py quiet_world 0 empty_ui] p q r show ?thesis by simp
qed

section \<open>Duplicates of uploaded files\<close>

text \<open>
  C2. The duplicate tests compare the candidate's name with \<open>metadata.filename\<close>, which
  on a store reference is the generated name; the original name is kept under
  \<open>metadata.original_name\<close>, which they do not read. Unless the two names happen to be
  equal, a file is not a duplicate of its own uploaded block, and selecting the same
  drawing twice leaves two blocks with the same original name and no notice.
\<close>

theorem remote_block_hides_name:
  "fname f \<noteq> uuidv4 ce @ ''.'' @ fileExtension_of f \<Longrightarrow>
   metadata_get (s3_block (upload_result pe ce f)) ''original_name'' = JString (fname f) \<and>
   \<not> isDuplicate f [s3_block (upload_result pe ce f)] \<and>
   \<not> isDuplicatePaste f [s3_block (upload_result pe ce f)]"
  by (simp add: isDuplicate_def isDuplicatePaste_def s3_block_def upload_result_def
      metadata_get_def Let_def)

theorem remote_block_hides_name_witness:
  "\<not> isDuplicate untyped_dwg
      (contentBlocks (perform (fileToContentBlock quiet_world) (Select (Some [untyped_dwg])) empty_ui)) \<and>
   map (\<lambda>b. metadata_get b ''original_name'')
     (contentBlocks
       (perform (fileToContentBlock quiet_world) (Select (Some [untyped_dwg]))
         (perform (fileToContentBlock quiet_world) (Select (Some [untyped_dwg])) empty_ui)))
     = [JString ''Plan.DWG'', JString ''Plan.DWG''] \<and>
   filter is_error_toast
     (toasts
       (perform (fileToContentBlock quiet_world) (Select (Some [untyped_dwg]))
         (perform (fileToContentBlock quiet_world) (Select (Some [untyped_dwg])) empty_ui)))
     = []"
proof -
  have s1: "contentBlocks (perform (fileToContentBlock quiet_world) (Select (Some [untyped_dwg])) empty_ui)
      = [s3_block (upload_result sample_penv (sample_call 0) untyped_dwg)]"
    by (simp add: untyped_dwg_def sample_penv_def run_defs hook_defs)
  have n: "fname untyped_dwg \<noteq> uuidv4 (sample_call 0) @ ''.'' @ fileExtension_of untyped_dwg"
    by (simp add: untyped_dwg_def sample_call_def)
  have r: "map (\<lambda>b. metadata_get b ''original_name'')
     (contentBlocks
       (perform (fileToContentBlock quiet_world) (Select (Some [untyped_dwg]))
         (perform (fileToContentBlock quiet_world) (Select (Some [untyped_dwg])) empty_ui)))
     = [JString ''Plan.DWG'', JString ''Plan.DWG''] \<and>
   filter is_error_toast
     (toasts
       (perform (fileToContentBlock quiet_world) (Select (Some [untyped_dwg]))
         (perform (fileToContentBlock quiet_world) (Select (Some [untyped_dwg])) empty_ui)))
     = []"
    by (simp add: untyped_dwg_def run_defs hook_defs)
  from remote_block_hides_name [OF n, of sample_penv] s1 r show ?thesis by simp
qed


end
